theory Spec2Isabelle
  imports Complex_Main "HOL-Library.AList"
begin

section \<open>Python values shared by the two modules\<close>

text \<open>
  Exceptions are values. The first four are raised by the Python of the sources itself
  (indexing, dictionary lookup, an unbound name, opening a file that is not there);
  \<open>NotAnArray\<close> is \<open>np.load\<close> on a path that holds no array, \<open>ShapeMismatch\<close> an
  operation on tensors of different shapes, and \<open>Raised\<close> is whatever a collaborator
  that is not part of the sources (a writer, the executor, the downloader) raises.
\<close>

datatype py_error =
    IndexError
  | KeyError string
  | NameError string
  | FileNotFoundError string
  | NotAnArray string
  | ShapeMismatch
  | Raised string

text \<open>
  A numpy array: its shape and its elements in row-major order. A well-formed array
  holds as many elements as its shape says.
\<close>

datatype 'a ndarray = NDArray (shape: "nat list") (flat: "'a list")

definition wf_array :: "'a ndarray \<Rightarrow> bool" where
  "wf_array v = (length (flat v) = prod_list (shape v))"

text \<open>\<open>v[i]\<close> for an index \<open>i \<ge> 0\<close>: the \<open>i\<close>-th block along the first axis.\<close>

definition getitem :: "'a ndarray \<Rightarrow> nat \<Rightarrow> py_error + 'a ndarray" where
  "getitem v i =
     (case shape v of
        [] \<Rightarrow> Inl IndexError
      | n # rest \<Rightarrow>
          if i < n
          then Inr (NDArray rest (take (prod_list rest) (drop (i * prod_list rest) (flat v))))
          else Inl IndexError)"

text \<open>
  \<open>v[:, a:b]\<close> for constants \<open>0 \<le> a\<close>, \<open>0 \<le> b\<close>: the slice is clipped to the
  second axis, every other axis is kept. An array with fewer than two axes raises.
\<close>

definition slice_axis1 :: "nat \<Rightarrow> nat \<Rightarrow> 'a ndarray \<Rightarrow> py_error + 'a ndarray" where
  "slice_axis1 a b v =
     (case shape v of
        n # m # rest \<Rightarrow>
          (let k = prod_list rest; lo = min a m; hi = min b m in
           Inr (NDArray (n # (hi - lo) # rest)
                  (concat (map (\<lambda>r. take ((hi - lo) * k) (drop (lo * k)
                                        (take (m * k) (drop (r * (m * k)) (flat v)))))
                               [0..<n]))))
      | _ \<Rightarrow> Inl IndexError)"

text \<open>\<open>str(n)\<close> of a natural number and of an integer: the decimal digits.\<close>

fun str_nat :: "nat \<Rightarrow> string" where
  "str_nat n =
     (if n < 10 then [''0123456789'' ! n]
      else str_nat (n div 10) @ [''0123456789'' ! (n mod 10)])"

declare str_nat.simps [simp del]

definition str_int :: "int \<Rightarrow> string" where
  "str_int i = (if i < 0 then ''-'' @ str_nat (nat (- i)) else str_nat (nat i))"

section \<open>The visualization adapters (\<open>ppsci/visualize/visualizer.py\<close>)\<close>

subsection \<open>The base class and the writers\<close>

text \<open>
  A dictionary of named arrays is an association list: Python dictionaries keep the
  order of insertion, and the writers receive them in that order.
\<close>

type_synonym 'a data_dict = "(string \<times> 'a ndarray) list"

text \<open>
  Modelled from the spec: the base class \<open>base.Visualizer\<close> is not among the sources.
  The spec has every adapter constructed with an input dictionary, an output-expression
  mapping (name to a derivation function over the input dictionary), a batch size, a
  timestamp count and a filename prefix, and \<open>output_keys\<close> derived once at construction
  from the expression mapping's keys, in declaration order; \<open>input_keys\<close> are the keys
  of the input dictionary.
\<close>

record 'a visualizer =
  input_dict :: "'a data_dict"
  input_keys :: "string list"
  output_expr :: "(string \<times> ('a data_dict \<Rightarrow> 'a ndarray)) list"
  output_keys :: "string list"
  batch_size :: int
  num_timestamps :: int
  prefix :: string

definition Visualizer_init ::
  "'a data_dict \<Rightarrow> (string \<times> ('a data_dict \<Rightarrow> 'a ndarray)) list \<Rightarrow> int \<Rightarrow> int \<Rightarrow> string
     \<Rightarrow> 'a visualizer" where
  "Visualizer_init inp expr bs nts pre =
     \<lparr>input_dict = inp, input_keys = map fst inp, output_expr = expr,
      output_keys = map fst expr, batch_size = bs, num_timestamps = nts, prefix = pre\<rparr>"

text \<open>
  The writers (\<open>plot.save_plot_from_3d_dict\<close>, \<open>plot.save_plot_from_2d_dict\<close>,
  \<open>vtu.save_vtu_from_dict\<close>) are collaborators outside the sources. A call of one is a
  value carrying its arguments; what the writer does with the call is a parameter
  \<open>w\<close>: \<open>None\<close> when it returns, \<open>Some e\<close> when it raises \<open>e\<close>.
\<close>

datatype 'a writer_call =
    save_plot_from_3d_dict string "'a data_dict" "string list" int
  | save_plot_from_2d_dict string "'a data_dict" "string list" int int
      "'a list option" "'a list option"
  | save_vtu_from_dict string "'a data_dict" "string list" "string list" int

type_synonym 'a writer = "'a writer_call \<Rightarrow> py_error option"

text \<open>
  A \<open>save\<close> returns the writer calls it made, in order, and the exception it ended
  with, if any. A call on which the writer raises is the last one made.
\<close>

type_synonym 'a saved = "'a writer_call list \<times> py_error option"

definition call_writer :: "'a writer \<Rightarrow> 'a writer_call \<Rightarrow> 'a saved" where
  "call_writer w c = ([c], w c)"

text \<open>The comprehension \<open>{key: value[i] for key, value in data_dict.items()}\<close>.\<close>

fun index_values :: "'a data_dict \<Rightarrow> nat \<Rightarrow> py_error + 'a data_dict" where
  "index_values [] i = Inr []"
| "index_values ((key, val) # kvs) i =
     (case getitem val i of
        Inl e \<Rightarrow> Inl e
      | Inr x \<Rightarrow>
          (case index_values kvs i of
             Inl e \<Rightarrow> Inl e
           | Inr cur \<Rightarrow> Inr ((key, x) # cur)))"

text \<open>
  The loop \<open>for i in range(value.shape[0])\<close> of both batched branches: build the
  dictionary of the \<open>i\<close>-th batch element, call the writer on it, stop at the first
  exception. \<open>mk i cur\<close> is the call the branch makes for batch element \<open>i\<close>.
\<close>

fun save_each_batch ::
  "'a writer \<Rightarrow> (nat \<Rightarrow> 'a data_dict \<Rightarrow> 'a writer_call) \<Rightarrow> 'a data_dict \<Rightarrow> nat list
     \<Rightarrow> 'a saved" where
  "save_each_batch w mk data_dict [] = ([], None)"
| "save_each_batch w mk data_dict (i # is) =
     (case index_values data_dict i of
        Inl e \<Rightarrow> ([], Some e)
      | Inr cur_data_dict \<Rightarrow>
          (case w (mk i cur_data_dict) of
             Some e \<Rightarrow> ([mk i cur_data_dict], Some e)
           | None \<Rightarrow>
               (case save_each_batch w mk data_dict is of
                  (cs, r) \<Rightarrow> (mk i cur_data_dict # cs, r))))"

text \<open>The first statement of both \<open>save\<close> methods: keep the entries under output keys.\<close>

definition keep_output_keys :: "string list \<Rightarrow> 'a data_dict \<Rightarrow> 'a data_dict" where
  "keep_output_keys keys data_dict = filter (\<lambda>(key, val). key \<in> set keys) data_dict"

subsection \<open>VisualizerScatter3D\<close>

definition VisualizerScatter3D_init ::
  "'a data_dict \<Rightarrow> (string \<times> ('a data_dict \<Rightarrow> 'a ndarray)) list \<Rightarrow> int option \<Rightarrow> int option
     \<Rightarrow> string option \<Rightarrow> 'a visualizer" where
  "VisualizerScatter3D_init inp expr bs nts pre =
     Visualizer_init inp expr
       (case bs of None \<Rightarrow> 64 | Some b \<Rightarrow> b)
       (case nts of None \<Rightarrow> 1 | Some n \<Rightarrow> n)
       (case pre of None \<Rightarrow> ''plot3d_scatter'' | Some p \<Rightarrow> p)"

definition VisualizerScatter3D_save ::
  "'a writer \<Rightarrow> 'a visualizer \<Rightarrow> string \<Rightarrow> 'a data_dict \<Rightarrow> 'a saved" where
  "VisualizerScatter3D_save w self filename data_dict0 =
     (let data_dict = keep_output_keys (output_keys self) data_dict0 in
      case output_keys self of
        [] \<Rightarrow> ([], Some IndexError)
      | key0 # _ \<Rightarrow>
          (case map_of data_dict key0 of
             None \<Rightarrow> ([], Some (KeyError key0))
           | Some val \<Rightarrow>
               (let dim = length (shape val) in
                if dim = 3
                then save_each_batch w
                       (\<lambda>i cur_data_dict.
                          save_plot_from_3d_dict (filename @ str_nat i) cur_data_dict
                            (output_keys self) (num_timestamps self))
                       data_dict [0..<shape val ! 0]
                else call_writer w
                       (save_plot_from_3d_dict filename data_dict
                          (output_keys self) (num_timestamps self)))))"

subsection \<open>VisualizerVtu and Visualizer3D\<close>

definition VisualizerVtu_init ::
  "'a data_dict \<Rightarrow> (string \<times> ('a data_dict \<Rightarrow> 'a ndarray)) list \<Rightarrow> int option \<Rightarrow> int option
     \<Rightarrow> string option \<Rightarrow> 'a visualizer" where
  "VisualizerVtu_init inp expr bs nts pre =
     Visualizer_init inp expr
       (case bs of None \<Rightarrow> 64 | Some b \<Rightarrow> b)
       (case nts of None \<Rightarrow> 1 | Some n \<Rightarrow> n)
       (case pre of None \<Rightarrow> ''vtu'' | Some p \<Rightarrow> p)"

definition VisualizerVtu_save ::
  "'a writer \<Rightarrow> 'a visualizer \<Rightarrow> string \<Rightarrow> 'a data_dict \<Rightarrow> 'a saved" where
  "VisualizerVtu_save w self filename data_dict =
     call_writer w
       (save_vtu_from_dict filename data_dict (input_keys self) (output_keys self)
          (num_timestamps self))"

definition Visualizer3D_init ::
  "'a data_dict \<Rightarrow> (string \<times> ('a data_dict \<Rightarrow> 'a ndarray)) list \<Rightarrow> int option \<Rightarrow> int option
     \<Rightarrow> string option \<Rightarrow> 'a visualizer" where
  "Visualizer3D_init inp expr bs nts pre =
     Visualizer_init inp expr
       (case bs of None \<Rightarrow> 64 | Some b \<Rightarrow> b)
       (case nts of None \<Rightarrow> 1 | Some n \<Rightarrow> n)
       (case pre of None \<Rightarrow> ''plot3d'' | Some p \<Rightarrow> p)"

definition Visualizer3D_save ::
  "'a writer \<Rightarrow> 'a visualizer \<Rightarrow> string \<Rightarrow> 'a data_dict \<Rightarrow> 'a saved" where
  "Visualizer3D_save w self filename data_dict =
     call_writer w
       (save_vtu_from_dict filename data_dict (input_keys self) (output_keys self)
          (num_timestamps self))"

subsection \<open>Visualizer2D and Visualizer2DPlot\<close>

definition Visualizer2D_init ::
  "'a data_dict \<Rightarrow> (string \<times> ('a data_dict \<Rightarrow> 'a ndarray)) list \<Rightarrow> int option \<Rightarrow> int option
     \<Rightarrow> string option \<Rightarrow> 'a visualizer" where
  "Visualizer2D_init inp expr bs nts pre =
     Visualizer_init inp expr
       (case bs of None \<Rightarrow> 64 | Some b \<Rightarrow> b)
       (case nts of None \<Rightarrow> 1 | Some n \<Rightarrow> n)
       (case pre of None \<Rightarrow> ''plot2d'' | Some p \<Rightarrow> p)"

record 'a visualizer2dplot = "'a visualizer" +
  stride :: int
  xticks :: "'a list option"
  yticks :: "'a list option"

definition Visualizer2DPlot_init ::
  "'a data_dict \<Rightarrow> (string \<times> ('a data_dict \<Rightarrow> 'a ndarray)) list \<Rightarrow> int option \<Rightarrow> int option
     \<Rightarrow> int option \<Rightarrow> 'a list option \<Rightarrow> 'a list option \<Rightarrow> string option
     \<Rightarrow> 'a visualizer2dplot" where
  "Visualizer2DPlot_init inp expr bs nts str xt yt pre =
     (let super = Visualizer2D_init inp expr
                    (Some (case bs of None \<Rightarrow> 64 | Some b \<Rightarrow> b))
                    (Some (case nts of None \<Rightarrow> 1 | Some n \<Rightarrow> n))
                    (Some (case pre of None \<Rightarrow> ''plot2d'' | Some p \<Rightarrow> p))
      in \<lparr>input_dict = input_dict super, input_keys = input_keys super,
          output_expr = output_expr super, output_keys = output_keys super,
          batch_size = batch_size super, num_timestamps = num_timestamps super,
          prefix = prefix super,
          stride = (case str of None \<Rightarrow> 1 | Some s \<Rightarrow> s), xticks = xt, yticks = yt\<rparr>)"

definition Visualizer2DPlot_save ::
  "'a writer \<Rightarrow> 'a visualizer2dplot \<Rightarrow> string \<Rightarrow> 'a data_dict \<Rightarrow> 'a saved" where
  "Visualizer2DPlot_save w self filename data_dict0 =
     (let data_dict = keep_output_keys (output_keys self) data_dict0 in
      case output_keys self of
        [] \<Rightarrow> ([], Some IndexError)
      | key0 # _ \<Rightarrow>
          (case map_of data_dict key0 of
             None \<Rightarrow> ([], Some (KeyError key0))
           | Some val \<Rightarrow>
               (let dim = length (shape val) in
                if dim = 4
                then save_each_batch w
                       (\<lambda>i cur_data_dict.
                          save_plot_from_2d_dict (filename @ str_nat i) cur_data_dict
                            (output_keys self) (num_timestamps self)
                            (stride self) (xticks self) (yticks self))
                       data_dict [0..<shape val ! 0]
                else call_writer w
                       (save_plot_from_2d_dict filename data_dict
                          (output_keys self) (num_timestamps self)
                          (stride self) (xticks self) (yticks self)))))"

text \<open>
  All retained entries of a dictionary can be indexed at every batch index below \<open>B\<close>:
  each has a first axis, of length at least \<open>B\<close>.
\<close>

definition batch_aligned :: "nat \<Rightarrow> 'a data_dict \<Rightarrow> bool" where
  "batch_aligned B dd = list_all (\<lambda>(key, v). shape v \<noteq> [] \<and> B \<le> hd (shape v)) dd"

section \<open>The time-marching driver (\<open>cylinder3d_unsteady_optimize.py\<close>)\<close>

subsection \<open>Files, the libraries and the trace of effects\<close>

text \<open>
  The file system maps a path, relative to the working directory, to what is there.
  The effects of a run are recorded in order in a trace: the calls of the libraries and
  of the collaborators that are not part of the sources, and the lines printed.
\<close>

datatype entry = Directory | NpyFile "real ndarray" | ZipFile "(string \<times> real ndarray) list"

type_synonym filesystem = "string \<Rightarrow> entry option"

datatype event =
    Download string
  | Extract string string
  | NpLoad string
  | PrintTrain int
  | FeedInteriorCur "real ndarray"
  | FeedUserCur "real ndarray"
  | FeedUserNext "real ndarray"
  | ExeRun real "real ndarray list"
  | PrintEpoch nat real
  | PrintBuildCost
  | PrintStep nat
  | SaveVtk string "real ndarray list"
  | SaveNpy string "real ndarray list"

record world =
  files :: filesystem
  trace :: "event list"

definition emit :: "event \<Rightarrow> world \<Rightarrow> world" where
  "emit e w = w\<lparr>trace := trace w @ [e]\<rparr>"

text \<open>
  The libraries the accessor calls are parameters: \<open>wget.download\<close> and
  \<open>ZipFile.extractall\<close> either raise or change the file system, and
  \<open>astype(np.float32)\<close> rounds each element with \<open>float32\<close>.
\<close>

record libs =
  wget_download :: "string \<Rightarrow> filesystem \<Rightarrow> py_error + filesystem"
  zip_extractall :: "string \<Rightarrow> string \<Rightarrow> filesystem \<Rightarrow> py_error + filesystem"
  float32 :: "real \<Rightarrow> real"

definition norm_path :: "string \<Rightarrow> string" where
  "norm_path p = (if take 2 p = ''./'' then drop 2 p else p)"

definition path_exists :: "filesystem \<Rightarrow> string \<Rightarrow> bool" where
  "path_exists fs p = (fs (norm_path p) \<noteq> None)"

definition np_load :: "filesystem \<Rightarrow> string \<Rightarrow> py_error + real ndarray" where
  "np_load fs p =
     (case fs (norm_path p) of
        None \<Rightarrow> Inl (FileNotFoundError p)
      | Some (NpyFile a) \<Rightarrow> Inr a
      | Some _ \<Rightarrow> Inl (NotAnArray p))"

definition astype :: "('a \<Rightarrow> 'b) \<Rightarrow> 'a ndarray \<Rightarrow> 'b ndarray" where
  "astype f v = NDArray (shape v) (map f (flat v))"

definition zeros :: "nat list \<Rightarrow> real ndarray" where
  "zeros sh = NDArray sh (replicate (prod_list sh) 0)"

text \<open>\<open>int(x)\<close> of a number: truncation towards zero.\<close>

definition py_int :: "real \<Rightarrow> int" where
  "py_int x = (if 0 \<le> x then \<lfloor>x\<rfloor> else \<lceil>x\<rceil>)"

subsection \<open>GetRealPhyInfo\<close>

definition data_set :: string where
  "data_set = ''https://dataset.bj.bcebos.com/PaddleScience/cylinder3D/openfoam_cylinder_re100/cylinder3d_openfoam_re100.zip''"

definition real_data_path :: "real \<Rightarrow> string" where
  "real_data_path time =
     ''openfoam_cylinder_re100/flow_re100_'' @ str_int (py_int time) @ ''_xyzuvwp.npy''"

text \<open>The body of the \<open>if\<close>: download the archive, then extract it.\<close>

definition download_real_data ::
  "('m libs_scheme) \<Rightarrow> world \<Rightarrow> (py_error \<times> world) + world" where
  "download_real_data L w =
     (let w1 = emit (Download data_set) w in
      case wget_download L data_set (files w1) of
        Inl e \<Rightarrow> Inl (e, w1)
      | Inr fs1 \<Rightarrow>
          (let w2 = emit (Extract ''cylinder3d_openfoam_re100.zip'' ''openfoam_cylinder_re100'')
                      (w1\<lparr>files := fs1\<rparr>) in
           case zip_extractall L ''cylinder3d_openfoam_re100.zip'' ''openfoam_cylinder_re100''
                  (files w2) of
             Inl e \<Rightarrow> Inl (e, w2)
           | Inr fs2 \<Rightarrow> Inr (w2\<lparr>files := fs2\<rparr>)))"

definition GetRealPhyInfo ::
  "('m libs_scheme) \<Rightarrow> real \<Rightarrow> string option \<Rightarrow> world
     \<Rightarrow> (py_error \<times> world) + (real ndarray \<times> world)" where
  "GetRealPhyInfo L time need_info w =
     (case (if path_exists (files w) ''./openfoam_cylinder_re100'' = False
            then download_real_data L w else Inr w) of
        Inl ew \<Rightarrow> Inl ew
      | Inr w1 \<Rightarrow>
          (let w2 = emit (NpLoad (real_data_path time)) w1 in
           case np_load (files w2) (real_data_path time) of
             Inl e \<Rightarrow> Inl (e, w2)
           | Inr loaded \<Rightarrow>
               (let real_data = astype (float32 L) loaded in
                if need_info = Some ''cord''
                then (case slice_axis1 0 3 real_data of
                        Inl e \<Rightarrow> Inl (e, w2) | Inr a \<Rightarrow> Inr (a, w2))
                else if need_info = Some ''physic''
                then (case slice_axis1 3 7 real_data of
                        Inl e \<Rightarrow> Inl (e, w2) | Inr a \<Rightarrow> Inr (a, w2))
                else Inr (real_data, w2))))"

text \<open>
  Column-wise concatenation of two arrays of two axes, as the spec words it
  (\<open>np.concatenate\<close> along axis 1): the rows of the first, each followed by the row of
  the second.
\<close>

definition concatenate_columns :: "'a ndarray \<Rightarrow> 'a ndarray \<Rightarrow> py_error + 'a ndarray" where
  "concatenate_columns a b =
     (if length (shape a) = 2 \<and> length (shape b) = 2 \<and> shape a ! 0 = shape b ! 0
      then Inr (NDArray [shape a ! 0, shape a ! 1 + shape b ! 1]
                  (concat (map (\<lambda>r. take (shape a ! 1) (drop (r * (shape a ! 1)) (flat a))
                                     @ take (shape b ! 1) (drop (r * (shape b ! 1)) (flat b)))
                               [0..<shape a ! 0])))
      else Inl ShapeMismatch)"

text \<open>The world a call of the accessor ends in, whether it returned or raised.\<close>

definition result_world :: "(py_error \<times> world) + ('a \<times> world) \<Rightarrow> world" where
  "result_world r = (case r of Inl (e, w) \<Rightarrow> w | Inr (a, w) \<Rightarrow> w)"

subsection \<open>The loss graph\<close>

text \<open>
  The losses are real numbers here: the rounding of the float32 arithmetic of the
  backend is not part of the model. An exception of one step is the result of the
  steps that follow it.
\<close>

definition and_then :: "'e + 'a \<Rightarrow> ('a \<Rightarrow> 'e + 'b) \<Rightarrow> 'e + 'b" where
  "and_then r f = (case r of Inl e \<Rightarrow> Inl e | Inr x \<Rightarrow> f x)"

text \<open>\<open>xs[i]\<close> on a list, for \<open>i \<ge> 0\<close>.\<close>

definition list_item :: "'a list \<Rightarrow> nat \<Rightarrow> py_error + 'a" where
  "list_item xs i = (if i < length xs then Inr (xs ! i) else Inl IndexError)"

text \<open>\<open>v[:, c]\<close>: column \<open>c\<close> of the second axis, which the result no longer has.\<close>

definition column :: "'a ndarray \<Rightarrow> nat \<Rightarrow> py_error + 'a ndarray" where
  "column v c =
     (case shape v of
        n # m # rest \<Rightarrow>
          (let k = prod_list rest in
           if c < m
           then Inr (NDArray (n # rest)
                       (concat (map (\<lambda>r. take k (drop (c * k)
                                             (take (m * k) (drop (r * (m * k)) (flat v)))))
                                    [0..<n])))
           else Inl IndexError)
      | _ \<Rightarrow> Inl IndexError)"

text \<open>
  The difference of two tensors of the same shape, element by element. The label
  placeholders are declared with the shapes of the columns they are compared with, so
  operands of different shapes are an error here; broadcasting is not modelled.
\<close>

definition tensor_sub :: "real ndarray \<Rightarrow> real ndarray \<Rightarrow> py_error + real ndarray" where
  "tensor_sub x y =
     (if shape x = shape y then Inr (NDArray (shape x) (map2 (-) (flat x) (flat y)))
      else Inl ShapeMismatch)"

text \<open>
  \<open>l2_norm_square\<close> (of \<open>paddlescience.solver.utils\<close>) is not among the sources: the
  loss graph takes it as a parameter \<open>l2\<close>, from a tensor to a number.

  One summand of \<open>data_loss\<close>:
  \<open>l2_norm_square(outputs_var[4][:, c] - labels_var[j])\<close>.
\<close>

definition data_term ::
  "(real ndarray \<Rightarrow> real) \<Rightarrow> real ndarray list \<Rightarrow> real ndarray list \<Rightarrow> nat \<Rightarrow> nat
     \<Rightarrow> py_error + real" where
  "data_term l2 outputs_var labels_var c j =
     and_then (list_item outputs_var 4) (\<lambda>out4.
     and_then (column out4 c) (\<lambda>col.
     and_then (list_item labels_var j) (\<lambda>label.
     and_then (tensor_sub col label) (\<lambda>diff.
     Inr (l2 diff)))))"

definition data_loss ::
  "(real ndarray \<Rightarrow> real) \<Rightarrow> real ndarray list \<Rightarrow> real ndarray list \<Rightarrow> py_error + real" where
  "data_loss l2 outputs_var labels_var =
     and_then (data_term l2 outputs_var labels_var 0 3) (\<lambda>t0.
     and_then (data_term l2 outputs_var labels_var 1 4) (\<lambda>t1.
     and_then (data_term l2 outputs_var labels_var 2 5) (\<lambda>t2.
     and_then (data_term l2 outputs_var labels_var 3 6) (\<lambda>t3.
     Inr (t0 + t1 + t2 + t3)))))"

text \<open>
  \<open>bc_loss\<close>, \<open>output_var_0_eq_loss\<close> and \<open>output_var_4_eq_loss\<close> are the values of
  \<open>compute_bc_loss\<close> and \<open>compute_eq_loss\<close>, which are not among the sources either.
\<close>

definition total_loss ::
  "(real ndarray \<Rightarrow> real) \<Rightarrow> real \<Rightarrow> real \<Rightarrow> real \<Rightarrow> real ndarray list \<Rightarrow> real ndarray list
     \<Rightarrow> py_error + real" where
  "total_loss l2 bc_loss output_var_0_eq_loss output_var_4_eq_loss outputs_var labels_var =
     and_then (data_loss l2 outputs_var labels_var) (\<lambda>data_loss.
     Inr (sqrt (bc_loss + output_var_0_eq_loss + output_var_4_eq_loss + 100.0 * data_loss)))"

text \<open>
  Modelled from the spec: what \<open>l2_norm_square\<close> computes, which the sources do not
  show. The spec has the data-fitting loss as the squared error between the network
  output and the fields: the square of the 2-norm of the difference, that is the sum of
  the squares of its elements.
\<close>

definition l2_norm_square :: "real ndarray \<Rightarrow> real" where
  "l2_norm_square x = (\<Sum>v\<leftarrow>flat x. v ^ 2)"

subsection \<open>The time-marching loop\<close>

text \<open>
  What the script builds before the loop with the collaborators that are not among
  the sources (the geometry, the PDE, the network, the compiled programs and the
  executor) is a parameter of the loop:
  \<^item> \<open>n_interior\<close> is \<open>len(pde_disc.geometry.interior)\<close>, \<open>labels\<close> the list
    \<open>algo.create_labels\<close> returned, \<open>inputs_feeds\<close> the dictionary
    \<open>dict(zip(inputs_name, inputs))\<close> and \<open>startup_scope\<close> the state of the executor
    after the startup program (the parameters of the network and of the optimizer);
  \<^item> the three \<open>feed_data\<close> methods of the algorithm take the label list and an array
    and return the label list (the attributes \<open>labels_attr\<close> never change and are
    part of the functions); \<open>data_parallel_partition\<close> takes the labels and the index
    of the timestep;
  \<^item> \<open>exe_run\<close> is one call \<open>exe.run(main_program, feed=feeds, fetch_list=fetches)\<close>:
    from the executor's state and the feeds, the new state, the fetched total loss
    \<open>out[0]\<close> and the fetched outputs \<open>out[1:]\<close>, one per input;
  \<^item> \<open>save_vtk\<close> and \<open>save_npy\<close> are the two writers: \<open>None\<close> when the call returns;
  \<^item> \<open>vtk_filename\<close>, \<open>solution_filename\<close> and \<open>train_epoch\<close> (\<open>epochs\<close>) come from
    the configuration.
  Each of them may raise.
\<close>

record 'p env = libs +
  n_interior :: nat
  labels :: "real ndarray list"
  inputs_feeds :: "(string \<times> real ndarray) list"
  startup_scope :: 'p
  feed_data_interior_cur :: "real ndarray list \<Rightarrow> real ndarray \<Rightarrow> py_error + real ndarray list"
  feed_data_user_cur :: "real ndarray list \<Rightarrow> real ndarray \<Rightarrow> py_error + real ndarray list"
  feed_data_user_next :: "real ndarray list \<Rightarrow> real ndarray \<Rightarrow> py_error + real ndarray list"
  data_parallel_partition :: "real ndarray list \<Rightarrow> nat \<Rightarrow> py_error + real ndarray list"
  exe_run :: "'p \<Rightarrow> (string \<times> real ndarray) list
                \<Rightarrow> py_error + ('p \<times> real \<times> real ndarray list)"
  save_vtk :: "string \<Rightarrow> real ndarray list \<Rightarrow> py_error option"
  save_npy :: "string \<Rightarrow> real ndarray list \<Rightarrow> py_error option"
  vtk_filename :: string
  solution_filename :: string
  train_epoch :: int

text \<open>
  The variables of the script that the loop reads and writes. \<open>out\<close> is \<open>None\<close> as
  long as the name is unbound.
\<close>

record 'p state =
  world :: world
  scope :: 'p
  feeds :: "(string \<times> real ndarray) list"
  current_interior :: "real ndarray"
  current_user :: "real ndarray"
  build_flag :: bool
  out :: "(real \<times> real ndarray list) option"

definition say :: "event \<Rightarrow> 'p state \<Rightarrow> 'p state" where
  "say e st = st\<lparr>world := emit e (world st)\<rparr>"

definition start_time :: int where
  "start_time = 100"

definition time_step :: int where
  "time_step = 1"

definition num_time_step :: nat where
  "num_time_step = 10"

text \<open>
  The state before the first iteration: the coordinates of the reference points are
  read for the geometry, \<open>current_interior\<close> is the array of zeros and \<open>current_user\<close>
  the first three of the physical columns at the start time.
\<close>

definition initial_state :: "'p env \<Rightarrow> world \<Rightarrow> (py_error \<times> world) + 'p state" where
  "initial_state env w =
     (case GetRealPhyInfo env (of_int start_time) (Some ''cord'') w of
        Inl ew \<Rightarrow> Inl ew
      | Inr (user, w1) \<Rightarrow>
          (case GetRealPhyInfo env (of_int start_time) (Some ''physic'') w1 of
             Inl ew \<Rightarrow> Inl ew
           | Inr (physic, w2) \<Rightarrow>
               (case slice_axis1 0 3 physic of
                  Inl e \<Rightarrow> Inl (e, w2)
                | Inr cur_user \<Rightarrow>
                    Inr \<lparr>world = w2, scope = startup_scope env, feeds = inputs_feeds env,
                         current_interior = astype (float32 env) (zeros [n_interior env, 3]),
                         current_user = cur_user, build_flag = True, out = None\<rparr>)))"

text \<open>
  The labels of one timestep: the interior subset from \<open>current_interior\<close>, the current
  slot of the reference points from \<open>current_user\<close>, their next slot from the real data
  at the next time, then the partition.
\<close>

definition make_labels ::
  "'p env \<Rightarrow> nat \<Rightarrow> int \<Rightarrow> 'p state \<Rightarrow> (py_error \<times> world) + (real ndarray list \<times> 'p state)"
  where
  "make_labels env i next_time st0 =
     (let st1 = say (FeedInteriorCur (current_interior st0)) st0 in
      case feed_data_interior_cur env (labels env) (current_interior st0) of
        Inl e \<Rightarrow> Inl (e, world st1)
      | Inr l1 \<Rightarrow>
          (let st2 = say (FeedUserCur (current_user st1)) st1 in
           case feed_data_user_cur env l1 (current_user st1) of
             Inl e \<Rightarrow> Inl (e, world st2)
           | Inr l2 \<Rightarrow>
               (case GetRealPhyInfo env (of_int next_time) (Some ''physic'') (world st2) of
                  Inl ew \<Rightarrow> Inl ew
                | Inr (real_next, w3) \<Rightarrow>
                    (let st3 = say (FeedUserNext real_next) (st2\<lparr>world := w3\<rparr>) in
                     case feed_data_user_next env l2 real_next of
                       Inl e \<Rightarrow> Inl (e, world st3)
                     | Inr l3 \<Rightarrow>
                         (case data_parallel_partition env l3 i of
                            Inl e \<Rightarrow> Inl (e, world st3)
                          | Inr self_lables \<Rightarrow> Inr (self_lables, st3))))))"

text \<open>\<open>for j in range(len(self_lables)): feeds['label' + str(j)] = self_lables[j]\<close>.\<close>

definition feed_labels ::
  "real ndarray list \<Rightarrow> (string \<times> real ndarray) list \<Rightarrow> (string \<times> real ndarray) list" where
  "feed_labels self_lables fd =
     fold (\<lambda>j. AList.update (''label'' @ str_nat j) (self_lables ! j))
       [0..<length self_lables] fd"

text \<open>
  The loop \<open>for k in range(train_epoch)\<close>: one optimizer step, the line with the loss
  and, on the very first step of the run, the line with the build cost.
\<close>

fun epoch_loop :: "'p env \<Rightarrow> nat list \<Rightarrow> 'p state \<Rightarrow> (py_error \<times> world) + 'p state" where
  "epoch_loop env [] st = Inr st"
| "epoch_loop env (k # ks) st =
     (case exe_run env (scope st) (feeds st) of
        Inl e \<Rightarrow> Inl (e, world st)
      | Inr (scope', loss, outputs) \<Rightarrow>
          (let st1 = say (PrintEpoch (k + 1) loss)
                       (say (ExeRun loss outputs)
                          (st\<lparr>scope := scope', out := Some (loss, outputs)\<rparr>));
               st2 = (if build_flag st1 then say PrintBuildCost (st1\<lparr>build_flag := False\<rparr>)
                      else st1)
           in epoch_loop env ks st2))"

text \<open>
  After the epochs: \<open>next_uvwp = out[1:]\<close>, the two writers, and the slices that become
  the carried state.
\<close>

definition save_and_carry ::
  "'p env \<Rightarrow> int \<Rightarrow> 'p state \<Rightarrow> (py_error \<times> world) + 'p state" where
  "save_and_carry env next_time st =
     (case out st of
        None \<Rightarrow> Inl (NameError ''out'', world st)
      | Some (loss, next_uvwp) \<Rightarrow>
          (let file_path = vtk_filename env @ str_int next_time;
               st1 = say (SaveVtk file_path next_uvwp) st in
           case save_vtk env file_path next_uvwp of
             Some e \<Rightarrow> Inl (e, world st1)
           | None \<Rightarrow>
               (let st2 = say (SaveNpy (solution_filename env @ str_int next_time) next_uvwp)
                            st1 in
                case save_npy env (solution_filename env @ str_int next_time) next_uvwp of
                  Some e \<Rightarrow> Inl (e, world st2)
                | None \<Rightarrow>
                    (case next_uvwp of
                       [] \<Rightarrow> Inl (IndexError, world st2)
                     | next_interior # _ \<Rightarrow>
                         (case slice_axis1 0 3 next_interior of
                            Inl e \<Rightarrow> Inl (e, world st2)
                          | Inr cur_interior \<Rightarrow>
                              (case slice_axis1 0 3 (last next_uvwp) of
                                 Inl e \<Rightarrow> Inl (e, world st2)
                               | Inr cur_user \<Rightarrow>
                                   Inr (st2\<lparr>current_interior := cur_interior,
                                            current_user := cur_user\<rparr>)))))))"

text \<open>The body of the loop \<open>for i in range(num_time_step)\<close>.\<close>

definition train_next_time ::
  "'p env \<Rightarrow> nat \<Rightarrow> 'p state \<Rightarrow> (py_error \<times> world) + 'p state" where
  "train_next_time env i st0 =
     (let next_time = start_time + (int i + 1) * time_step;
          st1 = say (PrintTrain next_time) st0 in
      case make_labels env i next_time st1 of
        Inl ew \<Rightarrow> Inl ew
      | Inr (self_lables, st2) \<Rightarrow>
          (case epoch_loop env [0..<nat (train_epoch env)]
                  (st2\<lparr>feeds := feed_labels self_lables (feeds st2)\<rparr>) of
             Inl ew \<Rightarrow> Inl ew
           | Inr st3 \<Rightarrow> save_and_carry env next_time (say (PrintStep i) st3)))"

fun time_loop :: "'p env \<Rightarrow> nat list \<Rightarrow> 'p state \<Rightarrow> (py_error \<times> world) + 'p state" where
  "time_loop env [] st = Inr st"
| "time_loop env (i # is) st =
     (case train_next_time env i st of
        Inl ew \<Rightarrow> Inl ew
      | Inr st' \<Rightarrow> time_loop env is st')"

text \<open>
  The script with a loop of \<open>n\<close> timesteps, and the script as it is. After \<open>i\<close>
  iterations the state is the one iteration \<open>i\<close> starts in.
\<close>

definition time_marching :: "'p env \<Rightarrow> nat \<Rightarrow> world \<Rightarrow> (py_error \<times> world) + 'p state" where
  "time_marching env n w =
     (case initial_state env w of
        Inl ew \<Rightarrow> Inl ew
      | Inr st \<Rightarrow> time_loop env [0..<n] st)"

definition driver :: "'p env \<Rightarrow> world \<Rightarrow> (py_error \<times> world) + 'p state" where
  "driver env w = time_marching env num_time_step w"

text \<open>The world a run ends in, and the counts of its optimizer steps and artifacts.\<close>

definition final_world :: "(py_error \<times> world) + 'p state \<Rightarrow> world" where
  "final_world r = (case r of Inl (e, w) \<Rightarrow> w | Inr st \<Rightarrow> world st)"

fun is_exe_run :: "event \<Rightarrow> bool" where
  "is_exe_run (ExeRun loss outputs) = True"
| "is_exe_run e = False"

fun is_save :: "event \<Rightarrow> bool" where
  "is_save (SaveVtk f d) = True"
| "is_save (SaveNpy f d) = True"
| "is_save e = False"

fun is_print_step :: "event \<Rightarrow> bool" where
  "is_print_step (PrintStep i) = True"
| "is_print_step e = False"

definition optimizer_steps :: "world \<Rightarrow> nat" where
  "optimizer_steps w = length (filter is_exe_run (trace w))"

definition artifacts :: "world \<Rightarrow> nat" where
  "artifacts w = length (filter is_save (trace w))"

definition iterations_done :: "world \<Rightarrow> nat" where
  "iterations_done w = length (filter is_print_step (trace w))"

subsection \<open>A small run\<close>

text \<open>
  A concrete environment and world, on which the theorems about the loop are
  exercised: two interior points, a network whose outputs have four columns, two
  epochs per timestep, collaborators that never raise, and the real data of the times
  100, 101 and 102 on disk.
\<close>

definition demo_env :: "nat env" where
  "demo_env =
     \<lparr>wget_download = (\<lambda>url fs. Inl (Raised ''offline'')),
      zip_extractall = (\<lambda>zip dir fs. Inl (Raised ''no archive'')),
      float32 = (\<lambda>x. x),
      n_interior = 2,
      labels = [],
      inputs_feeds = [],
      startup_scope = 0,
      feed_data_interior_cur = (\<lambda>ls a. Inr ls),
      feed_data_user_cur = (\<lambda>ls a. Inr ls),
      feed_data_user_next = (\<lambda>ls a. Inr ls),
      data_parallel_partition = (\<lambda>ls i. Inr ls),
      exe_run = (\<lambda>sc fd. Inr (Suc sc, 1 / real (Suc sc),
                   [NDArray [2, 4] (replicate 8 (real sc)), NDArray [1, 4] [1, 2, 3, 4]])),
      save_vtk = (\<lambda>f d. None),
      save_npy = (\<lambda>f d. None),
      vtk_filename = ''vtk_'',
      solution_filename = ''sol_'',
      train_epoch = 2\<rparr>"

definition demo_world :: world where
  "demo_world =
     \<lparr>files = [''openfoam_cylinder_re100'' \<mapsto> Directory,
               ''openfoam_cylinder_re100/flow_re100_100_xyzuvwp.npy'' \<mapsto>
                  NpyFile (NDArray [1, 7] [0, 0, 0, 1, 2, 3, 4]),
               ''openfoam_cylinder_re100/flow_re100_101_xyzuvwp.npy'' \<mapsto>
                  NpyFile (NDArray [1, 7] [0, 0, 0, 5, 6, 7, 8]),
               ''openfoam_cylinder_re100/flow_re100_102_xyzuvwp.npy'' \<mapsto>
                  NpyFile (NDArray [1, 7] [0, 0, 0, 9, 10, 11, 12])],
      trace = []\<rparr>"

section \<open>Properties of the visualization adapters\<close>

lemma map_of_keep_output_keys:
  "map_of (keep_output_keys keys dd) k = (if k \<in> set keys then map_of dd k else None)"
  by (induction dd) (auto simp: keep_output_keys_def)

lemma index_values_aligned:
  "list_all (\<lambda>(key, v). shape v \<noteq> [] \<and> i < hd (shape v)) dd \<Longrightarrow>
     \<exists>cur. index_values dd i = Inr cur"
proof (induction dd)
  case Nil
  then show ?case by simp
next
  case (Cons kv dd)
  obtain key v where kv: "kv = (key, v)" by (cases kv)
  from Cons.prems kv obtain n rest where sh: "shape v = n # rest" and lt: "i < n"
    by (cases "shape v") auto
  from Cons obtain cur where "index_values dd i = Inr cur" by auto
  with kv sh lt show ?case by (simp add: getitem_def)
qed

lemma save_each_batch_all:
  assumes "\<forall>i\<in>set js. \<exists>cur. index_values dd i = Inr cur"
    and "\<forall>i cur. w (mk i cur) = None"
  shows "save_each_batch w mk dd js = (map (\<lambda>i. mk i (projr (index_values dd i))) js, None)"
  using assms by (induction js) auto

lemma batch_aligned_index:
  assumes "batch_aligned B dd" "i < B"
  shows "\<exists>cur. index_values dd i = Inr cur"
proof -
  from assms have "list_all (\<lambda>(key, v). shape v \<noteq> [] \<and> i < hd (shape v)) dd"
    unfolding batch_aligned_def by (induction dd) auto
  then show ?thesis by (rule index_values_aligned)
qed

text \<open>
  C6. Let the value under the first output key be the selected array, and let the writer
  return normally. When the selected array has three axes, of shape \<open>(B, T, D)\<close>, and
  every retained entry can be indexed at the batch indices below \<open>B\<close>,
  \<open>VisualizerScatter3D.save\<close> calls the 3-D plot writer exactly \<open>B\<close> times and raises
  nothing: call \<open>i\<close> has the filename followed by \<open>str(i)\<close> and the dictionary of the
  \<open>i\<close>-th batch elements. When the selected array has two axes, of shape \<open>(T, D)\<close>,
  it calls the writer exactly once, with the filename and the retained entries as they
  are. A \<open>(2, 5, 3)\<close> output gives two calls, a \<open>(5, 3)\<close> output one.
\<close>

theorem VisualizerScatter3D_save_file_count:
  assumes keys: "output_keys self = key0 # keys"
    and val: "map_of data_dict key0 = Some val"
    and w: "\<forall>c. w c = None"
  shows "(shape val = [B, T, D]
            \<and> batch_aligned B (keep_output_keys (output_keys self) data_dict) \<longrightarrow>
          snd (VisualizerScatter3D_save w self filename data_dict) = None
          \<and> length (fst (VisualizerScatter3D_save w self filename data_dict)) = B
          \<and> (\<forall>i<B. \<exists>cur.
                index_values (keep_output_keys (output_keys self) data_dict) i = Inr cur
                \<and> fst (VisualizerScatter3D_save w self filename data_dict) ! i =
                    save_plot_from_3d_dict (filename @ str_nat i) cur
                      (output_keys self) (num_timestamps self)))
       \<and> (shape val = [T, D] \<longrightarrow>
          VisualizerScatter3D_save w self filename data_dict =
            ([save_plot_from_3d_dict filename
                (keep_output_keys (output_keys self) data_dict)
                (output_keys self) (num_timestamps self)], None))"
proof (intro conjI impI)
  let ?kept = "keep_output_keys (output_keys self) data_dict"
  from keys val have kept: "map_of ?kept key0 = Some val"
    by (simp add: map_of_keep_output_keys)
  {
    assume sh: "shape val = [T, D]"
    with keys kept w
    show "VisualizerScatter3D_save w self filename data_dict =
            ([save_plot_from_3d_dict filename ?kept (output_keys self) (num_timestamps self)],
             None)"
      by (simp add: VisualizerScatter3D_save_def call_writer_def)
  }
  assume a: "shape val = [B, T, D] \<and> batch_aligned B ?kept"
  then have sh: "shape val = [B, T, D]" and al: "batch_aligned B ?kept" by auto
  let ?mk = "\<lambda>i cur_data_dict. save_plot_from_3d_dict (filename @ str_nat i) cur_data_dict
               (output_keys self) (num_timestamps self)"
  have ix: "\<forall>i\<in>set [0..<B]. \<exists>cur. index_values ?kept i = Inr cur"
    using batch_aligned_index [OF al] by auto
  have sv: "VisualizerScatter3D_save w self filename data_dict =
              save_each_batch w ?mk ?kept [0..<B]"
    using keys kept sh by (simp add: VisualizerScatter3D_save_def)
  have eq: "VisualizerScatter3D_save w self filename data_dict =
              (map (\<lambda>i. ?mk i (projr (index_values ?kept i))) [0..<B], None)"
    unfolding sv using ix w by (intro save_each_batch_all) auto
  show "snd (VisualizerScatter3D_save w self filename data_dict) = None"
    by (simp add: eq)
  show "length (fst (VisualizerScatter3D_save w self filename data_dict)) = B"
    by (simp add: eq)
  show "\<forall>i<B. \<exists>cur. index_values ?kept i = Inr cur
          \<and> fst (VisualizerScatter3D_save w self filename data_dict) ! i =
              save_plot_from_3d_dict (filename @ str_nat i) cur
                (output_keys self) (num_timestamps self)"
  proof (intro allI impI)
    fix i assume "i < B"
    with batch_aligned_index [OF al] obtain cur where c: "index_values ?kept i = Inr cur"
      by blast
    with \<open>i < B\<close> show "\<exists>cur. index_values ?kept i = Inr cur
          \<and> fst (VisualizerScatter3D_save w self filename data_dict) ! i =
              save_plot_from_3d_dict (filename @ str_nat i) cur
                (output_keys self) (num_timestamps self)"
      by (simp add: eq)
  qed
qed

theorem VisualizerScatter3D_save_file_count_witness:
  "length (fst (VisualizerScatter3D_save (\<lambda>c. None)
       (VisualizerScatter3D_init [] [(''states'', \<lambda>d. NDArray [2, 5, 3] (replicate 30 0))]
          None None None)
       ''result'' [(''states'', NDArray [2, 5, 3] (replicate 30 (0::real)))])) = 2
   \<and> length (fst (VisualizerScatter3D_save (\<lambda>c. None)
       (VisualizerScatter3D_init [] [(''states'', \<lambda>d. NDArray [5, 3] (replicate 15 0))]
          None None None)
       ''result'' [(''states'', NDArray [5, 3] (replicate 15 (0::real)))])) = 1"
proof -
  let ?s3 = "VisualizerScatter3D_init [] [(''states'', \<lambda>d. NDArray [2, 5, 3] (replicate 30 0))]
          None None None :: real visualizer"
  let ?s2 = "VisualizerScatter3D_init [] [(''states'', \<lambda>d. NDArray [5, 3] (replicate 15 0))]
          None None None :: real visualizer"
  have k3: "output_keys ?s3 = ''states'' # []" and k2: "output_keys ?s2 = ''states'' # []"
    by (simp_all add: VisualizerScatter3D_init_def Visualizer_init_def)
  have w: "\<forall>c::real writer_call. (\<lambda>c. None) c = (None :: py_error option)" by simp
  have a: "batch_aligned 2 (keep_output_keys (output_keys ?s3)
             [(''states'', NDArray [2, 5, 3] (replicate 30 (0::real)))])"
    by (simp add: batch_aligned_def keep_output_keys_def k3)
  have "length (fst (VisualizerScatter3D_save (\<lambda>c. None) ?s3 ''result''
          [(''states'', NDArray [2, 5, 3] (replicate 30 (0::real)))])) = 2"
    using VisualizerScatter3D_save_file_count
      [OF k3, of "[(''states'', NDArray [2, 5, 3] (replicate 30 (0::real)))]"
         "NDArray [2, 5, 3] (replicate 30 0)" "\<lambda>c. None" 2 5 3 "''result''"] a
    by simp
  moreover have "length (fst (VisualizerScatter3D_save (\<lambda>c. None) ?s2 ''result''
          [(''states'', NDArray [5, 3] (replicate 15 (0::real)))])) = 1"
    using VisualizerScatter3D_save_file_count
      [OF k2, of "[(''states'', NDArray [5, 3] (replicate 15 (0::real)))]"
         "NDArray [5, 3] (replicate 15 0)" "\<lambda>c. None" _ 5 3 "''result''"]
    by simp
  ultimately show ?thesis by simp
qed

text \<open>
  C7, as the code has it. Neither \<open>save\<close> checks the rank of the selected array. For
  every rank other than the batched one (three axes for \<open>VisualizerScatter3D\<close>, four
  for \<open>Visualizer2DPlot\<close>), ranks 1 and 5 among them, \<open>save\<close> makes exactly one writer
  call, with the filename and the retained entries unchanged, and ends the way that
  call ends: it raises only what the writer raises.
\<close>

theorem adapters_forward_other_ranks:
  "(output_keys s3 = key0 # keys \<and> map_of data_dict key0 = Some val
      \<and> length (shape val) \<noteq> 3 \<longrightarrow>
    VisualizerScatter3D_save w s3 filename data_dict =
      ([save_plot_from_3d_dict filename (keep_output_keys (output_keys s3) data_dict)
          (output_keys s3) (num_timestamps s3)],
       w (save_plot_from_3d_dict filename (keep_output_keys (output_keys s3) data_dict)
          (output_keys s3) (num_timestamps s3))))
   \<and> (output_keys s2 = key0' # keys' \<and> map_of data_dict' key0' = Some val'
      \<and> length (shape val') \<noteq> 4 \<longrightarrow>
    Visualizer2DPlot_save w s2 filename' data_dict' =
      ([save_plot_from_2d_dict filename' (keep_output_keys (output_keys s2) data_dict')
          (output_keys s2) (num_timestamps s2) (stride s2) (xticks s2) (yticks s2)],
       w (save_plot_from_2d_dict filename' (keep_output_keys (output_keys s2) data_dict')
          (output_keys s2) (num_timestamps s2) (stride s2) (xticks s2) (yticks s2))))"
  by (simp add: VisualizerScatter3D_save_def Visualizer2DPlot_save_def call_writer_def
      map_of_keep_output_keys Let_def)

theorem adapters_forward_other_ranks_witness:
  "VisualizerScatter3D_save (\<lambda>c. Some (Raised ''writer''))
       (VisualizerScatter3D_init [] [(''u'', \<lambda>d. NDArray [2] [1, 2])] None None None)
       ''f'' [(''u'', NDArray [2] [1, 2 :: real])] =
     ([save_plot_from_3d_dict ''f'' [(''u'', NDArray [2] [1, 2])] [''u''] 1],
      Some (Raised ''writer''))
   \<and> Visualizer2DPlot_save (\<lambda>c. Some (Raised ''writer''))
       (Visualizer2DPlot_init [] [(''u'', \<lambda>d. NDArray [1, 1, 1, 1, 2] [1, 2])]
          None None None None None None)
       ''g'' [(''u'', NDArray [1, 1, 1, 1, 2] [1, 2 :: real])] =
     ([save_plot_from_2d_dict ''g'' [(''u'', NDArray [1, 1, 1, 1, 2] [1, 2])] [''u''] 1 1
         None None],
      Some (Raised ''writer''))"
  using adapters_forward_other_ranks
    [of "VisualizerScatter3D_init [] [(''u'', \<lambda>d. NDArray [2] [1, 2])] None None None"
        "''u''" "[]" "[(''u'', NDArray [2] [1, 2 :: real])]" "NDArray [2] [1, 2]"
        "\<lambda>c. Some (Raised ''writer'')" "''f''"
        "Visualizer2DPlot_init [] [(''u'', \<lambda>d. NDArray [1, 1, 1, 1, 2] [1, 2])]
          None None None None None None"
        "''u''" "[]" "[(''u'', NDArray [1, 1, 1, 1, 2] [1, 2 :: real])]"
        "NDArray [1, 1, 1, 1, 2] [1, 2]" "''g''"]
  by (simp add: VisualizerScatter3D_init_def Visualizer2DPlot_init_def Visualizer2D_init_def
      Visualizer_init_def keep_output_keys_def)

text \<open>
  C7, as the claim states it, fails: on a selected array of rank 1 (\<open>VisualizerScatter3D\<close>)
  and of rank 5 (\<open>Visualizer2DPlot\<close>), with a writer that returns, \<open>save\<close> raises
  nothing and has made its one writer call.
\<close>

theorem adapters_rank_error_counterexample:
  "VisualizerScatter3D_save (\<lambda>c. None)
       (VisualizerScatter3D_init [] [(''u'', \<lambda>d. NDArray [4] [1, 2, 3, 4])] None None None)
       ''f'' [(''u'', NDArray [4] [1, 2, 3, 4 :: real])] =
     ([save_plot_from_3d_dict ''f'' [(''u'', NDArray [4] [1, 2, 3, 4])] [''u''] 1], None)
   \<and> Visualizer2DPlot_save (\<lambda>c. None)
       (Visualizer2DPlot_init [] [(''u'', \<lambda>d. NDArray [1, 1, 1, 1, 2] [1, 2])]
          None None None None None None)
       ''g'' [(''u'', NDArray [1, 1, 1, 1, 2] [1, 2 :: real])] =
     ([save_plot_from_2d_dict ''g'' [(''u'', NDArray [1, 1, 1, 1, 2] [1, 2])] [''u''] 1 1
         None None], None)"
  by (simp add: VisualizerScatter3D_save_def Visualizer2DPlot_save_def call_writer_def
      VisualizerScatter3D_init_def Visualizer2DPlot_init_def Visualizer2D_init_def
      Visualizer_init_def keep_output_keys_def)

text \<open>
  C9. For every input dictionary, output-expression mapping, batch size, timestamp
  count, filename and data dictionary, \<open>VisualizerVtu.save\<close> and \<open>Visualizer3D.save\<close>
  make the identical mesh-writer call (same filename, data, input keys, output keys
  and timestamp count), whatever prefixes the two were constructed with; the objects
  the two constructors build are equal when a prefix is given, and with the default
  prefix they differ in the prefix only, which is \<open>vtu\<close> for one and \<open>plot3d\<close> for the
  other.
\<close>

theorem VisualizerVtu_Visualizer3D_same_write:
  "VisualizerVtu_save w (VisualizerVtu_init inp expr bs nts pre) filename data_dict =
     Visualizer3D_save w (Visualizer3D_init inp expr bs nts pre') filename data_dict
   \<and> fst (VisualizerVtu_save w (VisualizerVtu_init inp expr bs nts pre) filename data_dict) =
       [save_vtu_from_dict filename data_dict (map fst inp) (map fst expr)
          (case nts of None \<Rightarrow> 1 | Some n \<Rightarrow> n)]
   \<and> VisualizerVtu_init inp expr bs nts (Some p) = Visualizer3D_init inp expr bs nts (Some p)
   \<and> VisualizerVtu_init inp expr bs nts None =
       (Visualizer3D_init inp expr bs nts None)\<lparr>prefix := ''vtu''\<rparr>
   \<and> prefix (Visualizer3D_init inp expr bs nts None) = ''plot3d''"
  by (simp add: VisualizerVtu_save_def Visualizer3D_save_def VisualizerVtu_init_def
      Visualizer3D_init_def Visualizer_init_def call_writer_def)

text \<open>
  C10. The writer calls of \<open>VisualizerScatter3D.save\<close> and of \<open>Visualizer2DPlot.save\<close>,
  and the way they end, depend on the data dictionary only through its entries under
  output keys: two dictionaries with the same entries under the output keys, in the
  same order, give the same result, whatever else they hold (and whether or not the first
  output key is among them); in particular an entry under any other key, put anywhere
  in the dictionary, changes nothing.
\<close>

theorem save_depends_on_output_entries_only:
  "(keep_output_keys (output_keys s3) d1 = keep_output_keys (output_keys s3) d2 \<longrightarrow>
      VisualizerScatter3D_save w s3 filename d1 = VisualizerScatter3D_save w s3 filename d2)
   \<and> (keep_output_keys (output_keys s2) d1' = keep_output_keys (output_keys s2) d2' \<longrightarrow>
      Visualizer2DPlot_save w s2 filename' d1' = Visualizer2DPlot_save w s2 filename' d2')
   \<and> (k \<notin> set (output_keys s3) \<longrightarrow>
      VisualizerScatter3D_save w s3 filename (xs @ (k, v) # ys) =
        VisualizerScatter3D_save w s3 filename (xs @ ys))
   \<and> (k' \<notin> set (output_keys s2) \<longrightarrow>
      Visualizer2DPlot_save w s2 filename' (xs' @ (k', v') # ys') =
        Visualizer2DPlot_save w s2 filename' (xs' @ ys'))"
proof (intro conjI impI)
  assume "keep_output_keys (output_keys s3) d1 = keep_output_keys (output_keys s3) d2"
  then show "VisualizerScatter3D_save w s3 filename d1 = VisualizerScatter3D_save w s3 filename d2"
    by (simp add: VisualizerScatter3D_save_def)
next
  assume "keep_output_keys (output_keys s2) d1' = keep_output_keys (output_keys s2) d2'"
  then show "Visualizer2DPlot_save w s2 filename' d1' = Visualizer2DPlot_save w s2 filename' d2'"
    by (simp add: Visualizer2DPlot_save_def)
next
  assume "k \<notin> set (output_keys s3)"
  then have "keep_output_keys (output_keys s3) (xs @ (k, v) # ys) =
               keep_output_keys (output_keys s3) (xs @ ys)"
    by (simp add: keep_output_keys_def)
  then show "VisualizerScatter3D_save w s3 filename (xs @ (k, v) # ys) =
               VisualizerScatter3D_save w s3 filename (xs @ ys)"
    by (simp add: VisualizerScatter3D_save_def)
next
  assume "k' \<notin> set (output_keys s2)"
  then have "keep_output_keys (output_keys s2) (xs' @ (k', v') # ys') =
               keep_output_keys (output_keys s2) (xs' @ ys')"
    by (simp add: keep_output_keys_def)
  then show "Visualizer2DPlot_save w s2 filename' (xs' @ (k', v') # ys') =
               Visualizer2DPlot_save w s2 filename' (xs' @ ys')"
    by (simp add: Visualizer2DPlot_save_def)
qed

theorem save_depends_on_output_entries_only_witness:
  "VisualizerScatter3D_save (\<lambda>c. None)
       (VisualizerScatter3D_init [] [(''u'', \<lambda>d. NDArray [1, 1, 1] [0])] None None None)
       ''f'' [(''u'', NDArray [1, 1, 1] [7 :: real]), (''x'', NDArray [1] [1])] =
     VisualizerScatter3D_save (\<lambda>c. None)
       (VisualizerScatter3D_init [] [(''u'', \<lambda>d. NDArray [1, 1, 1] [0])] None None None)
       ''f'' [(''y'', NDArray [2] [3, 4]), (''u'', NDArray [1, 1, 1] [7])]
   \<and> Visualizer2DPlot_save (\<lambda>c. None)
       (Visualizer2DPlot_init [] [(''u'', \<lambda>d. NDArray [1, 1, 1] [0])]
          None None None None None None)
       ''g'' [(''u'', NDArray [1, 1, 1] [7 :: real]), (''x'', NDArray [1] [1])] =
     Visualizer2DPlot_save (\<lambda>c. None)
       (Visualizer2DPlot_init [] [(''u'', \<lambda>d. NDArray [1, 1, 1] [0])]
          None None None None None None)
       ''g'' [(''y'', NDArray [2] [3, 4]), (''u'', NDArray [1, 1, 1] [7])]"
  using save_depends_on_output_entries_only
    [of "VisualizerScatter3D_init [] [(''u'', \<lambda>d. NDArray [1, 1, 1] [0])] None None None"
        "[(''u'', NDArray [1, 1, 1] [7 :: real]), (''x'', NDArray [1] [1])]"
        "[(''y'', NDArray [2] [3, 4]), (''u'', NDArray [1, 1, 1] [7])]"
        "\<lambda>c. None" "''f''"
        "Visualizer2DPlot_init [] [(''u'', \<lambda>d. NDArray [1, 1, 1] [0])]
          None None None None None None"
        "[(''u'', NDArray [1, 1, 1] [7 :: real]), (''x'', NDArray [1] [1])]"
        "[(''y'', NDArray [2] [3, 4]), (''u'', NDArray [1, 1, 1] [7])]" "''g''",
     THEN conjunct1]
    save_depends_on_output_entries_only
    [of "VisualizerScatter3D_init [] [(''u'', \<lambda>d. NDArray [1, 1, 1] [0])] None None None"
        "[(''u'', NDArray [1, 1, 1] [7 :: real]), (''x'', NDArray [1] [1])]"
        "[(''y'', NDArray [2] [3, 4]), (''u'', NDArray [1, 1, 1] [7])]"
        "\<lambda>c. None" "''f''"
        "Visualizer2DPlot_init [] [(''u'', \<lambda>d. NDArray [1, 1, 1] [0])]
          None None None None None None"
        "[(''u'', NDArray [1, 1, 1] [7 :: real]), (''x'', NDArray [1] [1])]"
        "[(''y'', NDArray [2] [3, 4]), (''u'', NDArray [1, 1, 1] [7])]" "''g''",
     THEN conjunct2, THEN conjunct1]
  by (simp add: VisualizerScatter3D_init_def Visualizer2DPlot_init_def Visualizer2D_init_def
      Visualizer_init_def keep_output_keys_def)

section \<open>Properties of the real-data accessor\<close>

lemma length_concat_uniform:
  "\<forall>i<n. length (f i) = k \<Longrightarrow> length (concat (map f [0..<n])) = n * k"
  by (induction n) auto

lemma chunk_of_concat:
  "\<forall>i<n. length (f i) = k \<Longrightarrow> r < n \<Longrightarrow>
     take k (drop (r * k) (concat (map f [0..<n]))) = f r"
proof (induction n)
  case 0
  then show ?case by simp
next
  case (Suc n)
  have len: "length (concat (map f [0..<n])) = n * k"
    using Suc.prems(1) by (intro length_concat_uniform) auto
  show ?case
  proof (cases "r < n")
    case True
    then have "r * k + k \<le> n * k"
      by (metis Suc_leI mult_Suc mult_le_mono1 add.commute)
    with True Suc len show ?thesis by simp
  next
    case False
    with Suc.prems have "r = n" by simp
    with Suc.prems len show ?thesis by simp
  qed
qed

lemma concat_chunks:
  "concat (map (\<lambda>r. take k (drop (r * k) xs)) [0..<n]) = take (n * k) xs"
proof (induction n)
  case 0
  then show ?case by simp
next
  case (Suc n)
  have "take (n * k + k) xs = take (n * k) xs @ take k (drop (n * k) xs)"
    by (rule take_add)
  with Suc show ?case by (simp add: add.commute)
qed

lemma slice_axis1_2d:
  "shape v = [n, m] \<Longrightarrow>
     slice_axis1 a b v =
       Inr (NDArray [n, min b m - min a m]
              (concat (map (\<lambda>r. take (min b m - min a m)
                                   (drop (min a m) (take m (drop (r * m) (flat v)))))
                           [0..<n])))"
  by (simp add: slice_axis1_def Let_def)

lemma GetRealPhyInfo_present:
  assumes "path_exists (files w) ''./openfoam_cylinder_re100''"
    and "files w (real_data_path t) = Some (NpyFile a)"
    and "shape a = [n, m]"
  shows "GetRealPhyInfo L t need_info w =
           Inr (if need_info = Some ''cord''
                  then projr (slice_axis1 0 3 (astype (float32 L) a))
                else if need_info = Some ''physic''
                  then projr (slice_axis1 3 7 (astype (float32 L) a))
                else astype (float32 L) a,
                emit (NpLoad (real_data_path t)) w)"
proof -
  have np: "norm_path (real_data_path t) = real_data_path t"
    by (simp add: norm_path_def real_data_path_def)
  have sh: "shape (astype (float32 L) a) = [n, m]"
    using assms(3) by (simp add: astype_def)
  show ?thesis
    using assms(1,2) np
    by (simp add: GetRealPhyInfo_def np_load_def emit_def slice_axis1_2d [OF sh])
qed

text \<open>
  C3. Where the real data of time \<open>t\<close> exists (the data directory is there and the file
  of \<open>t\<close> holds a well-formed array of shape \<open>(n, 7)\<close>), the three calls return:
  \<open>"cord"\<close> gives columns 0:3, of shape \<open>(n, 3)\<close>, \<open>"physic"\<close> columns 3:7, of shape
  \<open>(n, 4)\<close>, \<open>None\<close> the whole record of shape \<open>(n, 7)\<close> (the file's elements, cast),
  and the first two concatenated column-wise are the third.
\<close>

theorem GetRealPhyInfo_cord_physic_reassemble:
  assumes ex: "path_exists (files w) ''./openfoam_cylinder_re100''"
    and npy: "files w (real_data_path t) = Some (NpyFile a)"
    and sh: "shape a = [n, 7]"
    and wf: "wf_array a"
  shows "\<exists>cord physic full w1 w2 w3.
           GetRealPhyInfo L t (Some ''cord'') w = Inr (cord, w1)
         \<and> GetRealPhyInfo L t (Some ''physic'') w1 = Inr (physic, w2)
         \<and> GetRealPhyInfo L t None w2 = Inr (full, w3)
         \<and> shape cord = [n, 3] \<and> shape physic = [n, 4] \<and> shape full = [n, 7]
         \<and> flat full = map (float32 L) (flat a)
         \<and> concatenate_columns cord physic = Inr full"
proof -
  let ?p = "real_data_path t"
  let ?w1 = "emit (NpLoad ?p) w"
  let ?w2 = "emit (NpLoad ?p) ?w1"
  let ?d = "astype (float32 L) a"
  let ?xs = "flat ?d"
  let ?rowc = "\<lambda>r. take 3 (drop 0 (take 7 (drop (r * 7) ?xs)))"
  let ?rowp = "\<lambda>r. take 4 (drop 3 (take 7 (drop (r * 7) ?xs)))"
  let ?cord = "NDArray [n, 3] (concat (map ?rowc [0..<n]))"
  let ?physic = "NDArray [n, 4] (concat (map ?rowp [0..<n]))"
  have shd: "shape ?d = [n, 7]" using sh by (simp add: astype_def)
  have len: "length ?xs = n * 7" using wf sh by (simp add: wf_array_def astype_def)
  have ex1: "path_exists (files ?w1) ''./openfoam_cylinder_re100''"
    and ex2: "path_exists (files ?w2) ''./openfoam_cylinder_re100''"
    and f1: "files ?w1 ?p = Some (NpyFile a)" and f2: "files ?w2 ?p = Some (NpyFile a)"
    using ex npy by (simp_all add: emit_def)
  have c: "slice_axis1 0 3 ?d = Inr ?cord" and p: "slice_axis1 3 7 ?d = Inr ?physic"
    by (simp_all add: slice_axis1_2d [OF shd])
  have g1: "GetRealPhyInfo L t (Some ''cord'') w = Inr (?cord, ?w1)"
    by (simp add: GetRealPhyInfo_present [OF ex npy sh] c)
  have g2: "GetRealPhyInfo L t (Some ''physic'') ?w1 = Inr (?physic, ?w2)"
    by (simp add: GetRealPhyInfo_present [OF ex1 f1 sh] p)
  have g3: "GetRealPhyInfo L t None ?w2 = Inr (?d, emit (NpLoad ?p) ?w2)"
    by (simp add: GetRealPhyInfo_present [OF ex2 f2 sh])
  have rowlen: "\<And>r. r < n \<Longrightarrow> length (take 7 (drop (r * 7) ?xs)) = 7"
  proof -
    fix r assume "r < n"
    then have "r * 7 + 7 \<le> n * 7" by simp
    with len show "length (take 7 (drop (r * 7) ?xs)) = 7" by simp
  qed
  have lc: "\<forall>r<n. length (?rowc r) = 3" and lp: "\<forall>r<n. length (?rowp r) = 4"
  proof -
    have "\<And>r ys. length (ys :: real list) = 7 \<Longrightarrow>
            length (take 3 (drop 0 ys)) = 3 \<and> length (take 4 (drop 3 ys)) = 4"
      by simp
    with rowlen show "\<forall>r<n. length (?rowc r) = 3" and "\<forall>r<n. length (?rowp r) = 4"
      by blast+
  qed
  have rows: "\<And>r. r < n \<Longrightarrow>
      take 3 (drop (r * 3) (concat (map ?rowc [0..<n])))
        @ take 4 (drop (r * 4) (concat (map ?rowp [0..<n])))
      = take 7 (drop (r * 7) ?xs)"
  proof -
    fix r assume r: "r < n"
    have "take 3 (drop (r * 3) (concat (map ?rowc [0..<n]))) = ?rowc r"
      using chunk_of_concat [OF lc r] .
    moreover have "take 4 (drop (r * 4) (concat (map ?rowp [0..<n]))) = ?rowp r"
      using chunk_of_concat [OF lp r] .
    moreover have "?rowc r @ ?rowp r = take 7 (drop (r * 7) ?xs)"
      using take_add [of 3 4 "take 7 (drop (r * 7) ?xs)"] rowlen [OF r] by simp
    ultimately show "take 3 (drop (r * 3) (concat (map ?rowc [0..<n])))
        @ take 4 (drop (r * 4) (concat (map ?rowp [0..<n])))
      = take 7 (drop (r * 7) ?xs)" by simp
  qed
  have "concat (map (\<lambda>r. take 3 (drop (r * 3) (concat (map ?rowc [0..<n])))
                          @ take 4 (drop (r * 4) (concat (map ?rowp [0..<n])))) [0..<n])
        = concat (map (\<lambda>r. take 7 (drop (r * 7) ?xs)) [0..<n])"
    using rows by (intro arg_cong [where f = concat] map_cong) auto
  also have "\<dots> = ?xs" using len by (simp add: concat_chunks)
  finally have cat: "concatenate_columns ?cord ?physic = Inr ?d"
    using shd by (cases ?d) (simp add: concatenate_columns_def)
  have "flat ?d = map (float32 L) (flat a)" by (simp add: astype_def)
  with g1 g2 g3 cat shd show ?thesis by auto
qed

theorem GetRealPhyInfo_cord_physic_reassemble_witness:
  "(let L = \<lparr>wget_download = (\<lambda>url fs. Inl (Raised ''offline'')),
              zip_extractall = (\<lambda>zip dir fs. Inl (Raised ''no archive'')),
              float32 = (\<lambda>x. x)\<rparr>;
        a = NDArray [2, 7] [1, 2, 3, 4, 5, 6, 7, 8, 9, 10, 11, 12, 13, 14];
        w = \<lparr>files = [''openfoam_cylinder_re100'' \<mapsto> Directory,
                       ''openfoam_cylinder_re100/flow_re100_100_xyzuvwp.npy'' \<mapsto> NpyFile a],
             trace = []\<rparr>
    in path_exists (files w) ''./openfoam_cylinder_re100''
       \<and> files w (real_data_path 100) = Some (NpyFile a)
       \<and> wf_array a
       \<and> (\<exists>cord physic full w1 w2 w3.
             GetRealPhyInfo L 100 (Some ''cord'') w = Inr (cord, w1)
           \<and> GetRealPhyInfo L 100 (Some ''physic'') w1 = Inr (physic, w2)
           \<and> GetRealPhyInfo L 100 None w2 = Inr (full, w3)
           \<and> shape cord = [2, 3] \<and> shape physic = [2, 4] \<and> shape full = [2, 7]
           \<and> flat full = [1, 2, 3, 4, 5, 6, 7, 8, 9, 10, 11, 12, 13, 14]
           \<and> concatenate_columns cord physic = Inr full))"
proof -
  let ?L = "\<lparr>wget_download = (\<lambda>url fs. Inl (Raised ''offline'')),
              zip_extractall = (\<lambda>zip dir fs. Inl (Raised ''no archive'')),
              float32 = (\<lambda>x. x)\<rparr>"
  let ?a = "NDArray [2, 7] [1, 2, 3, 4, 5, 6, 7, 8, 9, 10, 11, 12, 13, 14 :: real]"
  let ?w = "\<lparr>files = [''openfoam_cylinder_re100'' \<mapsto> Directory,
                       ''openfoam_cylinder_re100/flow_re100_100_xyzuvwp.npy'' \<mapsto> NpyFile ?a],
             trace = []\<rparr>"
  have p: "real_data_path 100 = ''openfoam_cylinder_re100/flow_re100_100_xyzuvwp.npy''"
    by (simp add: real_data_path_def py_int_def str_int_def str_nat.simps)
  have ex: "path_exists (files ?w) ''./openfoam_cylinder_re100''"
    by (simp add: path_exists_def norm_path_def)
  have npy: "files ?w (real_data_path 100) = Some (NpyFile ?a)"
    by (simp add: p)
  have sh: "shape ?a = [2, 7]" by simp
  have wf: "wf_array ?a" by (simp add: wf_array_def)
  from GetRealPhyInfo_cord_physic_reassemble [OF ex npy sh wf, of ?L] ex npy wf
  show ?thesis by (simp add: Let_def)
qed

text \<open>
  C8, as the code has it. The fallback is guarded by the data directory, not by the
  file of the requested time. When the path \<open>./openfoam_cylinder_re100\<close> exists, the
  accessor goes straight to the load of the requested file, whether that file is there
  or not, and leaves the files as they are. When the path does not exist, the download
  comes first, the extraction follows if the download returns, and the load is
  attempted only after both have returned.
\<close>

theorem GetRealPhyInfo_fallback_guard:
  "(path_exists (files w) ''./openfoam_cylinder_re100'' \<longrightarrow>
      trace (result_world (GetRealPhyInfo L t need_info w)) =
        trace w @ [NpLoad (real_data_path t)]
      \<and> files (result_world (GetRealPhyInfo L t need_info w)) = files w)
   \<and> (\<not> path_exists (files w) ''./openfoam_cylinder_re100'' \<longrightarrow>
      trace (result_world (GetRealPhyInfo L t need_info w)) =
        trace w @
          (case wget_download L data_set (files w) of
             Inl e \<Rightarrow> [Download data_set]
           | Inr fs1 \<Rightarrow>
               (case zip_extractall L ''cylinder3d_openfoam_re100.zip''
                       ''openfoam_cylinder_re100'' fs1 of
                  Inl e \<Rightarrow>
                    [Download data_set,
                     Extract ''cylinder3d_openfoam_re100.zip'' ''openfoam_cylinder_re100'']
                | Inr fs2 \<Rightarrow>
                    [Download data_set,
                     Extract ''cylinder3d_openfoam_re100.zip'' ''openfoam_cylinder_re100'',
                     NpLoad (real_data_path t)])))"
  by (auto simp: GetRealPhyInfo_def download_real_data_def result_world_def emit_def Let_def
      split: sum.splits)

theorem GetRealPhyInfo_fallback_guard_witness:
  "(let a = NDArray [1, 7] [1, 2, 3, 4, 5, 6, 7];
        L = \<lparr>wget_download =
                (\<lambda>url fs. Inr (fs(''cylinder3d_openfoam_re100.zip'' \<mapsto>
                                   ZipFile [(''flow_re100_100_xyzuvwp.npy'', a)]))),
              zip_extractall =
                (\<lambda>zip dir fs. Inr (fs(dir \<mapsto> Directory,
                                      dir @ ''/flow_re100_100_xyzuvwp.npy'' \<mapsto> NpyFile a))),
              float32 = (\<lambda>x. x)\<rparr>;
        present = \<lparr>files = [''openfoam_cylinder_re100'' \<mapsto> Directory], trace = []\<rparr>;
        absent = \<lparr>files = Map.empty, trace = []\<rparr>
    in path_exists (files present) ''./openfoam_cylinder_re100''
       \<and> trace (result_world (GetRealPhyInfo L 100 None present)) =
           [NpLoad (real_data_path 100)]
       \<and> \<not> path_exists (files absent) ''./openfoam_cylinder_re100''
       \<and> trace (result_world (GetRealPhyInfo L 100 None absent)) =
           [Download data_set,
            Extract ''cylinder3d_openfoam_re100.zip'' ''openfoam_cylinder_re100'',
            NpLoad (real_data_path 100)])"
proof -
  let ?a = "NDArray [1, 7] [1, 2, 3, 4, 5, 6, 7 :: real]"
  let ?L = "\<lparr>wget_download =
                (\<lambda>url fs. Inr (fs(''cylinder3d_openfoam_re100.zip'' \<mapsto>
                                   ZipFile [(''flow_re100_100_xyzuvwp.npy'', ?a)]))),
              zip_extractall =
                (\<lambda>zip dir fs. Inr (fs(dir \<mapsto> Directory,
                                      dir @ ''/flow_re100_100_xyzuvwp.npy'' \<mapsto> NpyFile ?a))),
              float32 = (\<lambda>x. x)\<rparr>"
  let ?present = "\<lparr>files = [''openfoam_cylinder_re100'' \<mapsto> Directory], trace = []\<rparr>"
  let ?absent = "\<lparr>files = Map.empty, trace = []\<rparr>"
  have ex: "path_exists (files ?present) ''./openfoam_cylinder_re100''"
    and nex: "\<not> path_exists (files ?absent) ''./openfoam_cylinder_re100''"
    by (simp_all add: path_exists_def norm_path_def)
  from GetRealPhyInfo_fallback_guard [of ?present ?L 100 None] ex
  have 1: "trace (result_world (GetRealPhyInfo ?L 100 None ?present)) =
             [NpLoad (real_data_path 100)]"
    by simp
  from GetRealPhyInfo_fallback_guard [of ?absent ?L 100 None] nex
  have 2: "trace (result_world (GetRealPhyInfo ?L 100 None ?absent)) =
           [Download data_set,
            Extract ''cylinder3d_openfoam_re100.zip'' ''openfoam_cylinder_re100'',
            NpLoad (real_data_path 100)]"
    by simp
  from ex nex 1 2 show ?thesis by (simp add: Let_def)
qed

text \<open>
  C8, as the claim states it, fails: with the data directory there and holding the file
  of time 100 only, the file of time 111 is absent, and the call for time 111 attempts
  the load at once, without any download, and raises \<open>FileNotFoundError\<close>.
\<close>

theorem GetRealPhyInfo_missing_file_counterexample:
  "(let L = \<lparr>wget_download = (\<lambda>url fs. Inl (Raised ''offline'')),
              zip_extractall = (\<lambda>zip dir fs. Inl (Raised ''no archive'')),
              float32 = (\<lambda>x. x)\<rparr>;
        w = \<lparr>files = [''openfoam_cylinder_re100'' \<mapsto> Directory,
                       ''openfoam_cylinder_re100/flow_re100_100_xyzuvwp.npy'' \<mapsto>
                          NpyFile (NDArray [1, 7] [0, 0, 0, 1, 2, 3, 4])],
             trace = []\<rparr>
    in files w (real_data_path 111) = None
       \<and> GetRealPhyInfo L 111 None w =
           Inl (FileNotFoundError ''openfoam_cylinder_re100/flow_re100_111_xyzuvwp.npy'',
                w\<lparr>trace := [NpLoad ''openfoam_cylinder_re100/flow_re100_111_xyzuvwp.npy'']\<rparr>))"
proof -
  have p: "real_data_path 111 = ''openfoam_cylinder_re100/flow_re100_111_xyzuvwp.npy''"
    by (simp add: real_data_path_def py_int_def str_int_def str_nat.simps)
  show ?thesis
    by (simp add: Let_def p GetRealPhyInfo_def path_exists_def norm_path_def np_load_def
        emit_def)
qed

section \<open>Properties of the loss\<close>

lemma column_2d:
  assumes sh: "shape v = [n, m]" and c: "c < m" and len: "length (flat v) = n * m"
  shows "column v c = Inr (NDArray [n] (map (\<lambda>r. flat v ! (r * m + c)) [0..<n]))"
proof -
  have cell: "take 1 (drop c (take m (drop (r * m) (flat v)))) = [flat v ! (r * m + c)]"
    if r: "r < n" for r
  proof -
    from r have "r * m + m \<le> n * m"
      by (metis Suc_leI mult_Suc mult_le_mono1 add.commute)
    with len c have l: "c < length (take m (drop (r * m) (flat v)))" by simp
    have "take 1 (drop c (take m (drop (r * m) (flat v)))) =
            [take m (drop (r * m) (flat v)) ! c]"
      using l by (simp add: take_Suc_conv_app_nth [of 0] hd_drop_conv_nth take_Suc)
    also have "take m (drop (r * m) (flat v)) ! c = flat v ! (r * m + c)"
      using c l by simp
    finally show ?thesis .
  qed
  have "concat (map (\<lambda>r. take 1 (drop c (take m (drop (r * m) (flat v))))) [0..<n]) =
          concat (map (\<lambda>r. [flat v ! (r * m + c)]) [0..<n])"
    using cell by (intro arg_cong [where f = concat] map_cong) auto
  also have "\<dots> = map (\<lambda>r. flat v ! (r * m + c)) [0..<n]"
    by (induction n) simp_all
  finally show ?thesis using sh c by (simp add: column_def)
qed

lemma map2_minus_upt:
  "length ys = n \<Longrightarrow> map2 (-) (map f [0..<n]) ys = map (\<lambda>r. f r - ys ! r) [0..<n]"
  by (rule nth_equalityI) simp_all

lemma data_term_formula:
  assumes "4 < length outputs_var" and "shape (outputs_var ! 4) = [n, m]"
    and "wf_array (outputs_var ! 4)" and "c < m" and "j < length labels_var"
    and "shape (labels_var ! j) = [n]" and "wf_array (labels_var ! j)"
  shows "data_term l2 outputs_var labels_var c j =
           Inr (l2 (NDArray [n] (map (\<lambda>r. flat (outputs_var ! 4) ! (r * m + c)
                                            - flat (labels_var ! j) ! r) [0..<n])))"
proof -
  have len: "length (flat (outputs_var ! 4)) = n * m"
    using assms(2,3) by (simp add: wf_array_def)
  have llen: "length (flat (labels_var ! j)) = n"
    using assms(6,7) by (simp add: wf_array_def)
  show ?thesis
    using assms(1,5,6)
    by (simp add: data_term_def and_then_def list_item_def column_2d [OF assms(2,4) len]
        tensor_sub_def map2_minus_upt [OF llen])
qed

lemma l2_norm_square_upt:
  "l2_norm_square (NDArray sh (map f [0..<n])) = (\<Sum>r = 0..<n. (f r)^2)"
  by (simp add: l2_norm_square_def interv_sum_list_conv_sum_set_nat comp_def)

text \<open>
  C1. With a reference-point output \<open>outputs_var[4]\<close> of shape \<open>(n, 4)\<close> and the four
  label arrays \<open>labels_var[3..6]\<close> of shape \<open>(n)\<close>, the total loss is
  \<open>sqrt(bc_loss + eq_loss_interior + eq_loss_reference + 100 * data_loss)\<close>, where
  \<open>data_loss\<close> is the sum over the four columns \<open>c\<close> of \<open>l2_norm_square\<close> of the
  difference between column \<open>c\<close> of the output and label \<open>3 + c\<close>. This holds for the
  values of every evaluation, and for whatever \<open>l2_norm_square\<close> computes; when it is
  the sum of squares, \<open>data_loss\<close> is the sum of the squared errors of the four columns.
\<close>

theorem total_loss_formula:
  assumes outs: "4 < length outputs_var"
    and osh: "shape (outputs_var ! 4) = [n, 4]"
    and owf: "wf_array (outputs_var ! 4)"
    and labs: "6 < length labels_var"
    and lsh: "\<forall>j\<in>{3, 4, 5, 6}. shape (labels_var ! j) = [n] \<and> wf_array (labels_var ! j)"
  shows "total_loss l2 bc_loss eq_loss_interior eq_loss_reference outputs_var labels_var =
           Inr (sqrt (bc_loss + eq_loss_interior + eq_loss_reference
                      + 100 * (\<Sum>c = 0..<4.
                                 l2 (NDArray [n]
                                       (map (\<lambda>r. flat (outputs_var ! 4) ! (r * 4 + c)
                                                  - flat (labels_var ! (3 + c)) ! r)
                                            [0..<n])))))
       \<and> total_loss l2_norm_square bc_loss eq_loss_interior eq_loss_reference
             outputs_var labels_var =
           Inr (sqrt (bc_loss + eq_loss_interior + eq_loss_reference
                      + 100 * (\<Sum>c = 0..<4. \<Sum>r = 0..<n.
                                 (flat (outputs_var ! 4) ! (r * 4 + c)
                                  - flat (labels_var ! (3 + c)) ! r)^2)))"
proof -
  have t: "data_term l outputs_var labels_var c (3 + c) =
             Inr (l (NDArray [n] (map (\<lambda>r. flat (outputs_var ! 4) ! (r * 4 + c)
                                             - flat (labels_var ! (3 + c)) ! r) [0..<n])))"
    if "c < 4" for c l
  proof -
    from that have "3 + c \<in> {3, 4, 5, 6}" by auto
    with lsh have "shape (labels_var ! (3 + c)) = [n]" "wf_array (labels_var ! (3 + c))"
      by blast+
    moreover from that labs have "3 + c < length labels_var" by simp
    ultimately show ?thesis using that by (intro data_term_formula [OF outs osh owf]) auto
  qed
  have four: "(\<Sum>c = 0..<4. f c) = f 0 + f 1 + f 2 + f (3::nat)" for f :: "nat \<Rightarrow> real"
    by (simp add: numeral_eq_Suc)
  have gen: "total_loss l bc_loss eq_loss_interior eq_loss_reference outputs_var labels_var =
           Inr (sqrt (bc_loss + eq_loss_interior + eq_loss_reference
                      + 100 * (\<Sum>c = 0..<4.
                                 l (NDArray [n]
                                       (map (\<lambda>r. flat (outputs_var ! 4) ! (r * 4 + c)
                                                  - flat (labels_var ! (3 + c)) ! r)
                                            [0..<n])))))" for l
    using t [of 0 l] t [of 1 l] t [of 2 l] t [of 3 l]
    by (simp add: total_loss_def data_loss_def and_then_def four)
  show ?thesis
    using gen [of l2] gen [of l2_norm_square] by (simp add: l2_norm_square_upt)
qed

theorem total_loss_formula_witness:
  "(let outputs_var = [NDArray [0, 4] [], NDArray [0, 4] [], NDArray [0, 4] [],
                       NDArray [0, 4] [], NDArray [2, 4] [1, 2, 3, 4, 5, 6, 7, 8]];
        labels_var = [NDArray [0] [], NDArray [0] [], NDArray [0] [],
                      NDArray [2] [1, 5], NDArray [2] [2, 6], NDArray [2] [3, 7],
                      NDArray [2] [3, 6]]
    in 4 < length outputs_var \<and> shape (outputs_var ! 4) = [2, 4]
       \<and> wf_array (outputs_var ! 4) \<and> 6 < length labels_var
       \<and> list_all (\<lambda>j. shape (labels_var ! j) = [2] \<and> wf_array (labels_var ! j)) [3, 4, 5, 6]
       \<and> total_loss l2_norm_square 20 4 20 outputs_var labels_var = Inr (sqrt 544))"
proof -
  let ?o = "[NDArray [0, 4] [], NDArray [0, 4] [], NDArray [0, 4] [],
             NDArray [0, 4] [], NDArray [2, 4] [1, 2, 3, 4, 5, 6, 7, 8 :: real]]"
  let ?l = "[NDArray [0] [], NDArray [0] [], NDArray [0] [],
             NDArray [2] [1, 5], NDArray [2] [2, 6], NDArray [2] [3, 7],
             NDArray [2] [3, 6 :: real]]"
  have h1: "4 < length ?o" and h2: "shape (?o ! 4) = [2, 4]" and h3: "wf_array (?o ! 4)"
    and h4: "6 < length ?l"
    and h5: "\<forall>j\<in>{3, 4, 5, 6}. shape (?l ! j) = [2] \<and> wf_array (?l ! j)"
    by (simp_all add: wf_array_def)
  have two: "(\<Sum>r = 0..<2. f r) = f 0 + f (1::nat)" for f :: "nat \<Rightarrow> real"
    by (simp add: numeral_eq_Suc)
  have four: "(\<Sum>c = 0..<4. f c) = f 0 + f 1 + f 2 + f (3::nat)" for f :: "nat \<Rightarrow> real"
    by (simp add: numeral_eq_Suc)
  from total_loss_formula [OF h1 h2 h3 h4 h5, of l2_norm_square 20 4 20, THEN conjunct2]
  have "total_loss l2_norm_square 20 4 20 ?o ?l = Inr (sqrt 544)"
    by (simp add: two four)
  with h1 h2 h3 h4 show ?thesis by (simp add: Let_def wf_array_def)
qed

section \<open>Properties of the time-marching loop\<close>

lemma say_simps [simp]:
  "trace (world (say e st)) = trace (world st) @ [e]"
  "files (world (say e st)) = files (world st)"
  "scope (say e st) = scope st"
  "feeds (say e st) = feeds st"
  "current_interior (say e st) = current_interior st"
  "current_user (say e st) = current_user st"
  "build_flag (say e st) = build_flag st"
  "out (say e st) = out st"
  by (simp_all add: say_def emit_def)

lemma GetRealPhyInfo_trace:
  "\<exists>evs. trace (result_world (GetRealPhyInfo L t ni w)) = trace w @ evs
        \<and> filter is_exe_run evs = [] \<and> filter is_save evs = []
        \<and> filter is_print_step evs = []"
  by (auto simp: GetRealPhyInfo_def download_real_data_def result_world_def emit_def Let_def
      split: sum.splits)

lemma GetRealPhyInfo_trace_Inr:
  assumes "GetRealPhyInfo L t ni w = Inr (a, w')"
  shows "\<exists>evs. trace w' = trace w @ evs
        \<and> filter is_exe_run evs = [] \<and> filter is_save evs = []
        \<and> filter is_print_step evs = []"
  using GetRealPhyInfo_trace [of L t ni w] assms by (simp add: result_world_def)

lemma GetRealPhyInfo_trace_Inl:
  assumes "GetRealPhyInfo L t ni w = Inl (e, w')"
  shows "\<exists>evs. trace w' = trace w @ evs
        \<and> filter is_exe_run evs = [] \<and> filter is_save evs = []
        \<and> filter is_print_step evs = []"
  using GetRealPhyInfo_trace [of L t ni w] assms by (simp add: result_world_def)

lemma initial_state_trace:
  "\<exists>evs. trace (final_world (initial_state env w)) = trace w @ evs
        \<and> filter is_exe_run evs = [] \<and> filter is_save evs = []
        \<and> filter is_print_step evs = []"
proof (cases "GetRealPhyInfo env (of_int start_time) (Some ''cord'') w")
  case (Inl ew)
  then show ?thesis
    using GetRealPhyInfo_trace_Inl [of env "of_int start_time" "Some ''cord''" w "fst ew" "snd ew"]
    by (cases ew) (simp add: initial_state_def final_world_def)
next
  case (Inr aw)
  obtain a w1 where aw: "aw = (a, w1)" by (cases aw)
  from GetRealPhyInfo_trace_Inr [of env _ _ w a w1] Inr aw
  obtain evs1 where 1: "trace w1 = trace w @ evs1" "filter is_exe_run evs1 = []"
    "filter is_save evs1 = []" "filter is_print_step evs1 = []" by blast
  show ?thesis
  proof (cases "GetRealPhyInfo env (of_int start_time) (Some ''physic'') w1")
    case (Inl ew)
    obtain e w2 where ew: "ew = (e, w2)" by (cases ew)
    from GetRealPhyInfo_trace_Inl [of env _ _ w1 e w2] Inl ew
    obtain evs2 where 2: "trace w2 = trace w1 @ evs2" "filter is_exe_run evs2 = []"
      "filter is_save evs2 = []" "filter is_print_step evs2 = []" by blast
    from Inr aw Inl ew 1 2 show ?thesis
      by (intro exI [of _ "evs1 @ evs2"]) (simp add: initial_state_def final_world_def)
  next
    case (Inr pw)
    obtain p w2 where pw: "pw = (p, w2)" by (cases pw)
    from GetRealPhyInfo_trace_Inr [of env _ _ w1 p w2] Inr pw
    obtain evs2 where 2: "trace w2 = trace w1 @ evs2" "filter is_exe_run evs2 = []"
      "filter is_save evs2 = []" "filter is_print_step evs2 = []" by blast
    from \<open>GetRealPhyInfo env (of_int start_time) (Some ''cord'') w = Inr aw\<close> aw Inr pw 1 2
    show ?thesis
      by (intro exI [of _ "evs1 @ evs2"])
        (simp add: initial_state_def final_world_def split: sum.splits)
  qed
qed

lemma initial_state_fields:
  assumes "initial_state env w = Inr st"
  shows "out st = None" and "current_interior st = astype (float32 env) (zeros [n_interior env, 3])"
  using assms by (auto simp: initial_state_def split: sum.splits prod.splits)

lemma make_labels_Inr:
  assumes "make_labels env i t st = Inr (ls, st')"
  shows "\<exists>mid rn. trace (world st') =
           trace (world st) @ [FeedInteriorCur (current_interior st),
                               FeedUserCur (current_user st)] @ mid @ [FeedUserNext rn]
        \<and> filter is_exe_run mid = [] \<and> filter is_save mid = []
        \<and> filter is_print_step mid = []"
    and "out st' = out st" and "current_interior st' = current_interior st"
    and "current_user st' = current_user st" and "scope st' = scope st"
    and "build_flag st' = build_flag st"
proof -
  from assms obtain rn w3 where
    g: "GetRealPhyInfo env (of_int t) (Some ''physic'')
          (world (say (FeedUserCur (current_user st)) (say (FeedInteriorCur (current_interior st)) st)))
        = Inr (rn, w3)"
    and st': "st' = say (FeedUserNext rn)
        ((say (FeedUserCur (current_user st)) (say (FeedInteriorCur (current_interior st)) st))
          \<lparr>world := w3\<rparr>)"
    by (auto simp: make_labels_def Let_def split: sum.splits prod.splits)
  from GetRealPhyInfo_trace_Inr [OF g]
  obtain evs where e: "trace w3 = (trace (world st) @ [FeedInteriorCur (current_interior st)]
      @ [FeedUserCur (current_user st)]) @ evs" "filter is_exe_run evs = []"
    "filter is_save evs = []" "filter is_print_step evs = []" by auto
  show "\<exists>mid rn. trace (world st') =
           trace (world st) @ [FeedInteriorCur (current_interior st),
                               FeedUserCur (current_user st)] @ mid @ [FeedUserNext rn]
        \<and> filter is_exe_run mid = [] \<and> filter is_save mid = []
        \<and> filter is_print_step mid = []"
    using e st'
    by (intro exI [of _ evs] exI [of _ rn]) (simp add: say_def emit_def)
  show "out st' = out st" "current_interior st' = current_interior st"
    "current_user st' = current_user st" "scope st' = scope st"
    "build_flag st' = build_flag st"
    using st' by (simp_all add: say_def)
qed

lemma make_labels_Inl:
  assumes "make_labels env i t st = Inl (e, w')"
  shows "\<exists>evs. trace w' = trace (world st) @ FeedInteriorCur (current_interior st) # evs
        \<and> (\<forall>l1. feed_data_interior_cur env (labels env) (current_interior st) = Inr l1 \<longrightarrow>
              (\<exists>evs'. evs = FeedUserCur (current_user st) # evs'))
        \<and> filter is_exe_run evs = [] \<and> filter is_save evs = []
        \<and> filter is_print_step evs = []"
proof (cases "feed_data_interior_cur env (labels env) (current_interior st)")
  case (Inl a)
  with assms show ?thesis by (auto simp: make_labels_def Let_def)
next
  case (Inr l1)
  note l1 = this
  show ?thesis
  proof (cases "feed_data_user_cur env l1 (current_user st)")
    case (Inl a)
    with assms l1 show ?thesis by (auto simp: make_labels_def Let_def)
  next
    case (Inr l2)
    note l2 = this
    let ?st2 = "say (FeedUserCur (current_user st)) (say (FeedInteriorCur (current_interior st)) st)"
    show ?thesis
    proof (cases "GetRealPhyInfo env (of_int t) (Some ''physic'') (world ?st2)")
      case (Inl ew)
      with assms l1 l2 have g: "GetRealPhyInfo env (of_int t) (Some ''physic'') (world ?st2) = Inl (e, w')"
        by (auto simp: make_labels_def Let_def)
      from GetRealPhyInfo_trace_Inl [OF g]
      obtain evs where "trace w' = trace (world ?st2) @ evs" "filter is_exe_run evs = []"
        "filter is_save evs = []" "filter is_print_step evs = []" by auto
      then show ?thesis
        by (intro exI [of _ "FeedUserCur (current_user st) # evs"]) simp
    next
      case (Inr aw)
      obtain rn w3 where aw: "aw = (rn, w3)" by (cases aw)
      from GetRealPhyInfo_trace_Inr [of env _ _ "world ?st2" rn w3] Inr aw
      obtain evs where e: "trace w3 = trace (world ?st2) @ evs" "filter is_exe_run evs = []"
        "filter is_save evs = []" "filter is_print_step evs = []" by auto
      from assms l1 l2 Inr aw have "w' = world (say (FeedUserNext rn) (?st2\<lparr>world := w3\<rparr>))"
        by (auto simp: make_labels_def Let_def split: sum.splits)
      with e show ?thesis
        by (intro exI [of _ "FeedUserCur (current_user st) # evs @ [FeedUserNext rn]"])
          (simp add: say_def emit_def)
    qed
  qed
qed

lemma epoch_loop_snoc:
  "epoch_loop env (ks @ [k]) st =
     (case epoch_loop env ks st of Inl ew \<Rightarrow> Inl ew | Inr st1 \<Rightarrow> epoch_loop env [k] st1)"
  by (induction ks arbitrary: st) (auto simp: Let_def split: sum.splits prod.splits)

lemma epoch_loop_Inr:
  assumes "epoch_loop env ks st = Inr st'"
  shows "length (filter is_exe_run (trace (world st'))) =
           length (filter is_exe_run (trace (world st))) + length ks
       \<and> filter is_save (trace (world st')) = filter is_save (trace (world st))
       \<and> filter is_print_step (trace (world st')) = filter is_print_step (trace (world st))
       \<and> current_interior st' = current_interior st \<and> current_user st' = current_user st
       \<and> (ks = [] \<longrightarrow> st' = st)"
  using assms
proof (induction ks arbitrary: st)
  case Nil
  then show ?case by simp
next
  case (Cons k ks)
  from Cons.prems obtain sc loss outs where
    r: "exe_run env (scope st) (feeds st) = Inr (sc, loss, outs)"
    by (auto split: sum.splits)
  let ?st1 = "say (PrintEpoch (k + 1) loss)
                (say (ExeRun loss outs) (st\<lparr>scope := sc, out := Some (loss, outs)\<rparr>))"
  let ?st2 = "if build_flag ?st1 then say PrintBuildCost (?st1\<lparr>build_flag := False\<rparr>) else ?st1"
  from Cons.prems r have "epoch_loop env ks ?st2 = Inr st'"
    by (cases "build_flag st") (simp_all add: Let_def)
  from Cons.IH [OF this] show ?case by (simp add: say_def emit_def)
qed

lemma epoch_loop_Inl:
  assumes "epoch_loop env ks st = Inl (e, w')"
  shows "length (filter is_exe_run (trace w')) \<le>
           length (filter is_exe_run (trace (world st))) + length ks
       \<and> filter is_save (trace w') = filter is_save (trace (world st))
       \<and> filter is_print_step (trace w') = filter is_print_step (trace (world st))"
  using assms
proof (induction ks arbitrary: st)
  case Nil
  then show ?case by simp
next
  case (Cons k ks)
  show ?case
  proof (cases "exe_run env (scope st) (feeds st)")
    case (Inl a)
    with Cons.prems show ?thesis by simp
  next
    case (Inr r)
    obtain sc loss outs where r: "r = (sc, loss, outs)" by (cases r)
    let ?st1 = "say (PrintEpoch (k + 1) loss)
                (say (ExeRun loss outs) (st\<lparr>scope := sc, out := Some (loss, outs)\<rparr>))"
    let ?st2 = "if build_flag ?st1 then say PrintBuildCost (?st1\<lparr>build_flag := False\<rparr>) else ?st1"
    from Cons.prems Inr r have "epoch_loop env ks ?st2 = Inl (e, w')"
      by (cases "build_flag st") (simp_all add: Let_def)
    from Cons.IH [OF this] show ?thesis
      by (cases "build_flag st") (simp_all add: say_def emit_def)
  qed
qed


lemma epoch_loop_last:
  assumes "epoch_loop env (ks @ [k]) st = Inr st'"
  shows "\<exists>pre loss outs bc sc fd sc'.
           trace (world st') = pre @ [ExeRun loss outs, PrintEpoch (k + 1) loss] @ bc
         \<and> (bc = [] \<or> bc = [PrintBuildCost])
         \<and> out st' = Some (loss, outs)
         \<and> exe_run env sc fd = Inr (sc', loss, outs)"
proof -
  from assms obtain st1 where 1: "epoch_loop env [k] st1 = Inr st'"
    by (auto simp: epoch_loop_snoc split: sum.splits)
  then obtain sc loss outs where
    r: "exe_run env (scope st1) (feeds st1) = Inr (sc, loss, outs)"
    by (auto split: sum.splits)
  let ?st1 = "say (PrintEpoch (k + 1) loss)
                (say (ExeRun loss outs) (st1\<lparr>scope := sc, out := Some (loss, outs)\<rparr>))"
  from 1 r have st': "st' = (if build_flag ?st1
      then say PrintBuildCost (?st1\<lparr>build_flag := False\<rparr>) else ?st1)"
    by (cases "build_flag st1") (auto simp add: Let_def)
  show ?thesis
  proof (cases "build_flag st1")
    case True
    with st' r show ?thesis
      by (intro exI [of _ "trace (world st1)"] exI [of _ loss] exI [of _ outs]
          exI [of _ "[PrintBuildCost]"] exI [of _ "scope st1"] exI [of _ "feeds st1"]
          exI [of _ sc]) (simp add: say_def emit_def)
  next
    case False
    with st' r show ?thesis
      by (intro exI [of _ "trace (world st1)"] exI [of _ loss] exI [of _ outs]
          exI [of _ "[]"] exI [of _ "scope st1"] exI [of _ "feeds st1"]
          exI [of _ sc]) (simp add: say_def emit_def)
  qed
qed

lemma epoch_loop_total:
  assumes "\<forall>sc fd. \<exists>r. exe_run env sc fd = Inr r"
  shows "\<exists>st'. epoch_loop env ks st = Inr st' \<and> files (world st') = files (world st)"
proof (induction ks arbitrary: st)
  case Nil
  then show ?case by simp
next
  case (Cons k ks)
  from assms obtain sc loss outs where
    r: "exe_run env (scope st) (feeds st) = Inr (sc, loss, outs)"
    by (metis prod_cases3)
  let ?st1 = "say (PrintEpoch (k + 1) loss)
                (say (ExeRun loss outs) (st\<lparr>scope := sc, out := Some (loss, outs)\<rparr>))"
  let ?st2 = "if build_flag ?st1 then say PrintBuildCost (?st1\<lparr>build_flag := False\<rparr>) else ?st1"
  from Cons [of ?st2] obtain st' where
    "epoch_loop env ks ?st2 = Inr st'" "files (world st') = files (world ?st2)" by blast
  moreover have "files (world ?st2) = files (world st)" by (simp add: say_def emit_def)
  ultimately show ?case using r by (cases "build_flag st") (simp_all add: Let_def)
qed

lemma save_and_carry_Inr:
  assumes "save_and_carry env t st = Inr st'"
  shows "\<exists>loss next_uvwp.
           out st = Some (loss, next_uvwp) \<and> out st' = Some (loss, next_uvwp)
         \<and> next_uvwp \<noteq> []
         \<and> slice_axis1 0 3 (next_uvwp ! 0) = Inr (current_interior st')
         \<and> slice_axis1 0 3 (last next_uvwp) = Inr (current_user st')
         \<and> trace (world st') = trace (world st) @
             [SaveVtk (vtk_filename env @ str_int t) next_uvwp,
              SaveNpy (solution_filename env @ str_int t) next_uvwp]"
  using assms
  by (auto simp: save_and_carry_def Let_def say_def emit_def
      split: option.splits prod.splits sum.splits list.splits)

lemma save_and_carry_Inl:
  assumes "save_and_carry env t st = Inl (e, w')"
  shows "filter is_exe_run (trace w') = filter is_exe_run (trace (world st))
       \<and> length (filter is_save (trace w')) \<le> length (filter is_save (trace (world st))) + 2
       \<and> filter is_print_step (trace w') = filter is_print_step (trace (world st))"
  using assms
  by (auto simp: save_and_carry_def Let_def say_def emit_def
      split: option.splits prod.splits sum.splits list.splits)


lemma train_next_time_stages:
  assumes "train_next_time env i st = Inr st'"
  obtains ls st2 st3 where
    "make_labels env i (start_time + (int i + 1) * time_step)
       (say (PrintTrain (start_time + (int i + 1) * time_step)) st) = Inr (ls, st2)"
    and "epoch_loop env [0..<nat (train_epoch env)]
           (st2\<lparr>feeds := feed_labels ls (feeds st2)\<rparr>) = Inr st3"
    and "save_and_carry env (start_time + (int i + 1) * time_step) (say (PrintStep i) st3)
           = Inr st'"
  using assms
  by (auto simp: train_next_time_def Let_def split: sum.splits prod.splits)

lemma train_next_time_counts:
  assumes "train_next_time env i st = Inr st'"
  shows "optimizer_steps (world st') = optimizer_steps (world st) + nat (train_epoch env)"
    and "artifacts (world st') = artifacts (world st) + 2"
    and "iterations_done (world st') = iterations_done (world st) + 1"
proof -
  let ?t = "start_time + (int i + 1) * time_step"
  from assms obtain ls st2 st3 where
    m: "make_labels env i ?t (say (PrintTrain ?t) st) = Inr (ls, st2)"
    and e: "epoch_loop env [0..<nat (train_epoch env)]
           (st2\<lparr>feeds := feed_labels ls (feeds st2)\<rparr>) = Inr st3"
    and s: "save_and_carry env ?t (say (PrintStep i) st3) = Inr st'"
    by (rule train_next_time_stages)
  from make_labels_Inr(1) [OF m] obtain mid rn where
    t2: "trace (world st2) = trace (world st) @ [PrintTrain ?t]
           @ [FeedInteriorCur (current_interior st), FeedUserCur (current_user st)]
           @ mid @ [FeedUserNext rn]"
    and q: "filter is_exe_run mid = []" "filter is_save mid = []"
      "filter is_print_step mid = []"
    by auto
  from epoch_loop_Inr [OF e] have
    t3: "length (filter is_exe_run (trace (world st3))) =
           length (filter is_exe_run (trace (world st2))) + nat (train_epoch env)"
      "filter is_save (trace (world st3)) = filter is_save (trace (world st2))"
      "filter is_print_step (trace (world st3)) = filter is_print_step (trace (world st2))"
    by simp_all
  from save_and_carry_Inr [OF s] obtain next_uvwp where
    t4: "trace (world st') = trace (world st3) @ [PrintStep i] @
             [SaveVtk (vtk_filename env @ str_int ?t) next_uvwp,
              SaveNpy (solution_filename env @ str_int ?t) next_uvwp]"
    by auto
  show "optimizer_steps (world st') = optimizer_steps (world st) + nat (train_epoch env)"
    using t2 q t3 t4 by (simp add: optimizer_steps_def)
  show "artifacts (world st') = artifacts (world st) + 2"
    using t2 q t3 t4 by (simp add: artifacts_def)
  show "iterations_done (world st') = iterations_done (world st) + 1"
    using t2 q t3 t4 by (simp add: iterations_done_def)
qed

lemma train_next_time_Inl:
  assumes "train_next_time env i st = Inl (e, w')"
  shows "optimizer_steps w' \<le> optimizer_steps (world st) + nat (train_epoch env)"
    and "artifacts w' \<le> artifacts (world st) + 2"
    and "iterations_done w' \<le> iterations_done (world st) + 1"
proof -
  let ?t = "start_time + (int i + 1) * time_step"
  let ?st1 = "say (PrintTrain ?t) st"
  have "optimizer_steps w' \<le> optimizer_steps (world st) + nat (train_epoch env)
      \<and> artifacts w' \<le> artifacts (world st) + 2
      \<and> iterations_done w' \<le> iterations_done (world st) + 1"
  proof (cases "make_labels env i ?t ?st1")
    case (Inl ew)
    with assms have m: "make_labels env i ?t ?st1 = Inl (e, w')"
      by (simp add: train_next_time_def Let_def)
    from make_labels_Inl [OF m] obtain evs where
      "trace w' = trace (world st) @ [PrintTrain ?t]
         @ FeedInteriorCur (current_interior st) # evs"
      "filter is_exe_run evs = []" "filter is_save evs = []" "filter is_print_step evs = []"
      by auto
    then show ?thesis
      by (simp add: optimizer_steps_def artifacts_def iterations_done_def)
  next
    case (Inr r)
    obtain ls st2 where r: "r = (ls, st2)" by (cases r)
    from make_labels_Inr(1) [of env i ?t ?st1 ls st2] Inr r obtain mid rn where
      t2: "trace (world st2) = trace (world st) @ [PrintTrain ?t]
           @ [FeedInteriorCur (current_interior st), FeedUserCur (current_user st)]
           @ mid @ [FeedUserNext rn]"
      and q: "filter is_exe_run mid = []" "filter is_save mid = []"
        "filter is_print_step mid = []"
      by auto
    let ?st2' = "st2\<lparr>feeds := feed_labels ls (feeds st2)\<rparr>"
    show ?thesis
    proof (cases "epoch_loop env [0..<nat (train_epoch env)] ?st2'")
      case (Inl ew)
      with assms \<open>make_labels env i ?t ?st1 = Inr r\<close> r
      have "epoch_loop env [0..<nat (train_epoch env)] ?st2' = Inl (e, w')"
        by (simp add: train_next_time_def Let_def)
      from epoch_loop_Inl [OF this] t2 q show ?thesis
        by (simp add: optimizer_steps_def artifacts_def iterations_done_def)
    next
      case (Inr st3)
      note e3 = this
      from epoch_loop_Inr [OF e3] have
        t3: "length (filter is_exe_run (trace (world st3))) =
               length (filter is_exe_run (trace (world ?st2'))) + nat (train_epoch env)"
          "filter is_save (trace (world st3)) = filter is_save (trace (world ?st2'))"
          "filter is_print_step (trace (world st3)) = filter is_print_step (trace (world ?st2'))"
        by simp_all
      from assms \<open>make_labels env i ?t ?st1 = Inr r\<close> r e3
      have "save_and_carry env ?t (say (PrintStep i) st3) = Inl (e, w')"
        by (simp add: train_next_time_def Let_def)
      from save_and_carry_Inl [OF this] t3 t2 q show ?thesis
        by (simp add: optimizer_steps_def artifacts_def iterations_done_def)
    qed
  qed
  then show "optimizer_steps w' \<le> optimizer_steps (world st) + nat (train_epoch env)"
    and "artifacts w' \<le> artifacts (world st) + 2"
    and "iterations_done w' \<le> iterations_done (world st) + 1" by simp_all
qed

lemma train_next_time_carry:
  assumes ok: "train_next_time env i st = Inr st'"
    and inv: "out st = None \<or> 0 < train_epoch env"
  shows "0 < train_epoch env"
    and "\<exists>pre loss next_uvwp bc sc fd sc'.
           trace (world st') =
             pre @ [ExeRun loss next_uvwp, PrintEpoch (nat (train_epoch env)) loss] @ bc
               @ [PrintStep i,
                  SaveVtk (vtk_filename env @ str_int (start_time + (int i + 1) * time_step))
                    next_uvwp,
                  SaveNpy (solution_filename env @ str_int (start_time + (int i + 1) * time_step))
                    next_uvwp]
         \<and> (bc = [] \<or> bc = [PrintBuildCost])
         \<and> out st' = Some (loss, next_uvwp)
         \<and> next_uvwp \<noteq> []
         \<and> slice_axis1 0 3 (next_uvwp ! 0) = Inr (current_interior st')
         \<and> slice_axis1 0 3 (last next_uvwp) = Inr (current_user st')
         \<and> exe_run env sc fd = Inr (sc', loss, next_uvwp)"
proof -
  let ?t = "start_time + (int i + 1) * time_step"
  from ok obtain ls st2 st3 where
    m: "make_labels env i ?t (say (PrintTrain ?t) st) = Inr (ls, st2)"
    and e: "epoch_loop env [0..<nat (train_epoch env)]
           (st2\<lparr>feeds := feed_labels ls (feeds st2)\<rparr>) = Inr st3"
    and s: "save_and_carry env ?t (say (PrintStep i) st3) = Inr st'"
    by (rule train_next_time_stages)
  from save_and_carry_Inr [OF s] obtain loss next_uvwp where
    sc: "out st3 = Some (loss, next_uvwp)" "out st' = Some (loss, next_uvwp)"
      "next_uvwp \<noteq> []"
      "slice_axis1 0 3 (next_uvwp ! 0) = Inr (current_interior st')"
      "slice_axis1 0 3 (last next_uvwp) = Inr (current_user st')"
      "trace (world st') = trace (world st3) @ [PrintStep i] @
             [SaveVtk (vtk_filename env @ str_int ?t) next_uvwp,
              SaveNpy (solution_filename env @ str_int ?t) next_uvwp]"
    by auto
  show pos: "0 < train_epoch env"
  proof (rule ccontr)
    assume "\<not> 0 < train_epoch env"
    then have "[0..<nat (train_epoch env)] = []" by simp
    with e have "st3 = st2\<lparr>feeds := feed_labels ls (feeds st2)\<rparr>" by simp
    then have "out st3 = out st" using make_labels_Inr(2) [OF m] by simp
    with sc(1) inv \<open>\<not> 0 < train_epoch env\<close> show False by simp
  qed
  then have "[0..<nat (train_epoch env)] = [0..<nat (train_epoch env) - 1] @ [nat (train_epoch env) - 1]"
    by (metis Suc_diff_1 upt_Suc_append zero_le zero_less_nat_eq)
  with e have "epoch_loop env ([0..<nat (train_epoch env) - 1] @ [nat (train_epoch env) - 1])
           (st2\<lparr>feeds := feed_labels ls (feeds st2)\<rparr>) = Inr st3" by simp
  from epoch_loop_last [OF this] obtain pre l outs bc sc fd sc' where
    el: "trace (world st3) = pre @ [ExeRun l outs, PrintEpoch (nat (train_epoch env) - 1 + 1) l] @ bc"
      "bc = [] \<or> bc = [PrintBuildCost]" "out st3 = Some (l, outs)"
      "exe_run env sc fd = Inr (sc', l, outs)"
    by blast
  from pos have "nat (train_epoch env) - 1 + 1 = nat (train_epoch env)" by simp
  with el sc show "\<exists>pre loss next_uvwp bc sc fd sc'.
           trace (world st') =
             pre @ [ExeRun loss next_uvwp, PrintEpoch (nat (train_epoch env)) loss] @ bc
               @ [PrintStep i,
                  SaveVtk (vtk_filename env @ str_int ?t) next_uvwp,
                  SaveNpy (solution_filename env @ str_int ?t) next_uvwp]
         \<and> (bc = [] \<or> bc = [PrintBuildCost])
         \<and> out st' = Some (loss, next_uvwp)
         \<and> next_uvwp \<noteq> []
         \<and> slice_axis1 0 3 (next_uvwp ! 0) = Inr (current_interior st')
         \<and> slice_axis1 0 3 (last next_uvwp) = Inr (current_user st')
         \<and> exe_run env sc fd = Inr (sc', loss, next_uvwp)"
    by (intro exI [of _ pre] exI [of _ l] exI [of _ outs] exI [of _ bc] exI [of _ sc]
        exI [of _ fd] exI [of _ sc']) simp
qed


lemma time_loop_snoc:
  "time_loop env (js @ [i]) st =
     (case time_loop env js st of Inl ew \<Rightarrow> Inl ew | Inr st' \<Rightarrow> train_next_time env i st')"
  by (induction js arbitrary: st) (auto split: sum.splits)

lemma time_marching_Suc:
  "time_marching env (Suc n) w =
     (case time_marching env n w of Inl ew \<Rightarrow> Inl ew | Inr st \<Rightarrow> train_next_time env n st)"
  by (simp add: time_marching_def time_loop_snoc split: sum.splits)

lemma time_marching_0: "time_marching env 0 w = initial_state env w"
  by (simp add: time_marching_def split: sum.splits)

lemma time_marching_epochs:
  "time_marching env n w = Inr st \<Longrightarrow> out st = None \<or> 0 < train_epoch env"
proof (induction n arbitrary: st)
  case 0
  then show ?case by (simp add: time_marching_0 initial_state_fields)
next
  case (Suc n)
  from Suc.prems obtain st0 where 0: "time_marching env n w = Inr st0"
    and 1: "train_next_time env n st0 = Inr st"
    by (auto simp: time_marching_Suc split: sum.splits)
  from train_next_time_carry(1) [OF 1 Suc.IH [OF 0]] show ?case by simp
qed

lemma time_marching_pos:
  assumes "time_marching env (Suc n) w = Inr st"
  shows "0 < train_epoch env"
proof -
  from assms obtain st0 where 0: "time_marching env n w = Inr st0"
    and 1: "train_next_time env n st0 = Inr st"
    by (auto simp: time_marching_Suc split: sum.splits)
  from train_next_time_carry(1) [OF 1 time_marching_epochs [OF 0]] show ?thesis .
qed

lemma initial_state_counts:
  "optimizer_steps (final_world (initial_state env w)) = optimizer_steps w"
  "artifacts (final_world (initial_state env w)) = artifacts w"
  "iterations_done (final_world (initial_state env w)) = iterations_done w"
  using initial_state_trace [of env w]
  by (auto simp: optimizer_steps_def artifacts_def iterations_done_def)

lemma time_marching_counts:
  "time_marching env n w = Inr st \<Longrightarrow>
     optimizer_steps (world st) = optimizer_steps w + n * nat (train_epoch env)
   \<and> artifacts (world st) = artifacts w + 2 * n
   \<and> iterations_done (world st) = iterations_done w + n"
proof (induction n arbitrary: st)
  case 0
  then show ?case
    using initial_state_counts [of env w] by (simp add: time_marching_0 final_world_def)
next
  case (Suc n)
  from Suc.prems obtain st0 where 0: "time_marching env n w = Inr st0"
    and 1: "train_next_time env n st0 = Inr st"
    by (auto simp: time_marching_Suc split: sum.splits)
  from Suc.IH [OF 0] train_next_time_counts [OF 1] show ?case by simp
qed

lemma time_marching_bounds:
  "optimizer_steps (final_world (time_marching env n w)) \<le>
     optimizer_steps w + n * nat (train_epoch env)
   \<and> artifacts (final_world (time_marching env n w)) \<le> artifacts w + 2 * n
   \<and> iterations_done (final_world (time_marching env n w)) \<le> iterations_done w + n"
proof (induction n)
  case 0
  then show ?case by (simp add: time_marching_0 initial_state_counts)
next
  case (Suc n)
  show ?case
  proof (cases "time_marching env n w")
    case (Inl ew)
    with Suc show ?thesis by (simp add: time_marching_Suc)
  next
    case (Inr st0)
    note c = time_marching_counts [OF Inr]
    show ?thesis
    proof (cases "train_next_time env n st0")
      case (Inl ew)
      obtain e w' where ew: "ew = (e, w')" by (cases ew)
      from train_next_time_Inl [of env n st0 e w'] Inl ew c
      show ?thesis using Inr by (simp add: time_marching_Suc final_world_def)
    next
      case (Inr st)
      from train_next_time_counts [OF Inr] c
      show ?thesis using \<open>time_marching env n w = Inr st0\<close> Inr
        by (simp add: time_marching_Suc final_world_def)
    qed
  qed
qed

subsection \<open>The small run returns\<close>

lemma demo_paths:
  "real_data_path 100 = ''openfoam_cylinder_re100/flow_re100_100_xyzuvwp.npy''"
  "real_data_path 101 = ''openfoam_cylinder_re100/flow_re100_101_xyzuvwp.npy''"
  "real_data_path 102 = ''openfoam_cylinder_re100/flow_re100_102_xyzuvwp.npy''"
  by (simp_all add: real_data_path_def py_int_def str_int_def str_nat.simps)

lemma demo_initial:
  "\<exists>st. initial_state demo_env demo_world = Inr st \<and> files (world st) = files demo_world"
  by (simp add: initial_state_def GetRealPhyInfo_def demo_env_def demo_world_def
      path_exists_def norm_path_def np_load_def emit_def start_time_def demo_paths
      astype_def slice_axis1_def Let_def)

lemma demo_env_fields:
  "float32 demo_env = (\<lambda>x. x)" "n_interior demo_env = 2" "labels demo_env = []"
  "inputs_feeds demo_env = []" "startup_scope demo_env = 0"
  "feed_data_interior_cur demo_env = (\<lambda>ls a. Inr ls)"
  "feed_data_user_cur demo_env = (\<lambda>ls a. Inr ls)"
  "feed_data_user_next demo_env = (\<lambda>ls a. Inr ls)"
  "data_parallel_partition demo_env = (\<lambda>ls i. Inr ls)"
  "exe_run demo_env = (\<lambda>sc fd. Inr (Suc sc, 1 / real (Suc sc),
                   [NDArray [2, 4] (replicate 8 (real sc)), NDArray [1, 4] [1, 2, 3, 4]]))"
  "save_vtk demo_env = (\<lambda>f d. None)" "save_npy demo_env = (\<lambda>f d. None)"
  "train_epoch demo_env = 2"
  by (simp_all add: demo_env_def)

lemma demo_files:
  "path_exists (files demo_world) ''./openfoam_cylinder_re100''"
  "files demo_world (real_data_path 100) = Some (NpyFile (NDArray [1, 7] [0, 0, 0, 1, 2, 3, 4]))"
  "files demo_world (real_data_path 101) = Some (NpyFile (NDArray [1, 7] [0, 0, 0, 5, 6, 7, 8]))"
  "files demo_world (real_data_path 102) = Some (NpyFile (NDArray [1, 7] [0, 0, 0, 9, 10, 11, 12]))"
  by (simp_all add: demo_world_def demo_paths path_exists_def norm_path_def)

lemma demo_GetRealPhyInfo:
  assumes "files w = files demo_world" and "t = 100 \<or> t = 101 \<or> t = 102"
  shows "\<exists>a. GetRealPhyInfo demo_env t ni w = Inr (a, emit (NpLoad (real_data_path t)) w)
           \<and> (ni = Some ''physic'' \<longrightarrow> shape a = [1, 4])"
proof -
  from assms(2) obtain d where d: "files w (real_data_path t) = Some (NpyFile d)"
    and sh: "shape d = [1, 7]"
    using demo_files(2-4) assms(1) by auto
  have ex: "path_exists (files w) ''./openfoam_cylinder_re100''"
    using demo_files(1) assms(1) by simp
  have "shape (astype (float32 demo_env) d) = [1, 7]" using sh by (simp add: astype_def)
  then have "shape (projr (slice_axis1 3 7 (astype (float32 demo_env) d))) = [1, 4]"
    by (simp add: slice_axis1_2d)
  then show ?thesis
    by (simp add: GetRealPhyInfo_present [OF ex d sh])
qed

lemma demo_make_labels:
  assumes "files (world st) = files demo_world" and "t = 101 \<or> t = 102"
  shows "\<exists>st'. make_labels demo_env i t st = Inr ([], st')
           \<and> files (world st') = files demo_world"
proof -
  let ?st2 = "say (FeedUserCur (current_user st)) (say (FeedInteriorCur (current_interior st)) st)"
  have "files (world ?st2) = files demo_world" using assms(1) by simp
  moreover from assms(2) have "real_of_int t = 100 \<or> real_of_int t = 101 \<or> real_of_int t = 102"
    by auto
  ultimately obtain a where
    g: "GetRealPhyInfo demo_env (real_of_int t) (Some ''physic'') (world ?st2) =
          Inr (a, emit (NpLoad (real_data_path (real_of_int t))) (world ?st2))"
    using demo_GetRealPhyInfo [of "world ?st2" "real_of_int t" "Some ''physic''"] by blast
  show ?thesis
    using assms(1)
    by (simp add: make_labels_def demo_env_fields g Let_def) (simp add: say_def emit_def)
qed

lemma demo_save_and_carry:
  assumes "out st = Some (l, [NDArray [2, 4] xs, NDArray [1, 4] ys])"
  shows "\<exists>st'. save_and_carry demo_env t st = Inr st' \<and> files (world st') = files (world st)"
  using assms
  by (simp add: save_and_carry_def demo_env_fields slice_axis1_2d Let_def)

lemma demo_step:
  assumes "files (world st) = files demo_world" and "i = 0 \<or> i = 1"
  shows "\<exists>st'. train_next_time demo_env i st = Inr st' \<and> files (world st') = files demo_world"
proof -
  let ?t = "start_time + (int i + 1) * time_step"
  let ?st1 = "say (PrintTrain ?t) st"
  from assms(2) have t: "?t = 101 \<or> ?t = 102" by (auto simp: start_time_def time_step_def)
  have "files (world ?st1) = files demo_world" using assms(1) by simp
  from demo_make_labels [OF this t, of i] obtain st2 where
    m: "make_labels demo_env i ?t ?st1 = Inr ([], st2)"
    and f2: "files (world st2) = files demo_world" by blast
  let ?st2' = "st2\<lparr>feeds := feed_labels [] (feeds st2)\<rparr>"
  have tot: "\<forall>sc fd. \<exists>r. exe_run demo_env sc fd = Inr r" by (simp add: demo_env_fields)
  from epoch_loop_total [OF tot, of "[0..<nat (train_epoch demo_env)]" ?st2'] obtain st3 where
    e: "epoch_loop demo_env [0..<nat (train_epoch demo_env)] ?st2' = Inr st3"
    and f3: "files (world st3) = files (world ?st2')" by blast
  have "[0..<nat (train_epoch demo_env)] = [0..<1] @ [1]"
    by (simp add: demo_env_fields numeral_2_eq_2)
  with e have "epoch_loop demo_env ([0..<1] @ [1]) ?st2' = Inr st3" by simp
  from epoch_loop_last [OF this] obtain l outs sc fd sc' where
    o3: "out st3 = Some (l, outs)" and r: "exe_run demo_env sc fd = Inr (sc', l, outs)"
    by blast
  from r have "outs = [NDArray [2, 4] (replicate 8 (real sc)), NDArray [1, 4] [1, 2, 3, 4]]"
    by (simp add: demo_env_fields)
  with o3 have "out (say (PrintStep i) st3) =
      Some (l, [NDArray [2, 4] (replicate 8 (real sc)), NDArray [1, 4] [1, 2, 3, 4]])" by simp
  from demo_save_and_carry [OF this, of ?t] obtain st' where
    s: "save_and_carry demo_env ?t (say (PrintStep i) st3) = Inr st'"
    and f4: "files (world st') = files (world (say (PrintStep i) st3))" by blast
  from m e s have "train_next_time demo_env i st = Inr st'"
    by (simp add: train_next_time_def Let_def)
  moreover from f2 f3 f4 have "files (world st') = files demo_world" by simp
  ultimately show ?thesis by blast
qed

lemma demo_run:
  "\<exists>st. time_marching demo_env 2 demo_world = Inr st"
proof -
  from demo_initial obtain st0 where 0: "time_marching demo_env 0 demo_world = Inr st0"
    and f0: "files (world st0) = files demo_world"
    by (auto simp: time_marching_0)
  from demo_step [OF f0, of 0] obtain st1 where 1: "train_next_time demo_env 0 st0 = Inr st1"
    and f1: "files (world st1) = files demo_world" by auto
  from demo_step [OF f1, of 1] obtain st2 where 2: "train_next_time demo_env 1 st1 = Inr st2"
    by auto
  have "time_marching demo_env (Suc (Suc 0)) demo_world = Inr st2"
    using 0 1 2 by (simp add: time_marching_Suc)
  then show ?thesis by (auto simp: numeral_2_eq_2)
qed

subsection \<open>The claims about the loop\<close>

text \<open>
  C5. A run of the loop with \<open>n\<close> timesteps that returns has done exactly \<open>n\<close>
  iterations, \<open>n * train_epoch\<close> optimizer steps and \<open>2 * n\<close> artifact writes (one mesh
  file and one array file per timestep); every iteration that returns has done exactly
  \<open>train_epoch\<close> optimizer steps and two writes. No run, whether it returns or raises, does
  more than that: nothing stops the loop but an exception. With \<open>n = 0\<close> there is no
  optimizer step and no artifact, whatever the outcome. The script runs the loop with
  \<open>n = 10\<close>.
\<close>

theorem time_marching_step_counts:
  "(time_marching env n w = Inr st \<longrightarrow>
      int (optimizer_steps (world st)) = int (optimizer_steps w) + int n * train_epoch env
    \<and> artifacts (world st) = artifacts w + 2 * n
    \<and> iterations_done (world st) = iterations_done w + n)
   \<and> (train_next_time env i st0 = Inr st1 \<longrightarrow>
      optimizer_steps (world st1) = optimizer_steps (world st0) + nat (train_epoch env)
    \<and> artifacts (world st1) = artifacts (world st0) + 2)
   \<and> optimizer_steps (final_world (time_marching env 0 w)) = optimizer_steps w
   \<and> artifacts (final_world (time_marching env 0 w)) = artifacts w
   \<and> optimizer_steps (final_world (time_marching env n w)) \<le>
       optimizer_steps w + n * nat (train_epoch env)
   \<and> artifacts (final_world (time_marching env n w)) \<le> artifacts w + 2 * n
   \<and> iterations_done (final_world (time_marching env n w)) \<le> iterations_done w + n
   \<and> driver env w = time_marching env 10 w"
proof (intro conjI impI)
  assume ok: "time_marching env n w = Inr st"
  have "int (n * nat (train_epoch env)) = int n * train_epoch env"
  proof (cases n)
    case 0
    then show ?thesis by simp
  next
    case (Suc m)
    with ok time_marching_pos [of env m w st] show ?thesis by (simp add: algebra_simps)
  qed
  with time_marching_counts [OF ok]
  show "int (optimizer_steps (world st)) = int (optimizer_steps w) + int n * train_epoch env"
    by (metis of_nat_add)
  from time_marching_counts [OF ok]
  show "artifacts (world st) = artifacts w + 2 * n"
    and "iterations_done (world st) = iterations_done w + n" by simp_all
next
  assume "train_next_time env i st0 = Inr st1"
  from train_next_time_counts [OF this]
  show "optimizer_steps (world st1) = optimizer_steps (world st0) + nat (train_epoch env)"
    and "artifacts (world st1) = artifacts (world st0) + 2" by simp_all
next
  show "optimizer_steps (final_world (time_marching env 0 w)) = optimizer_steps w"
    and "artifacts (final_world (time_marching env 0 w)) = artifacts w"
    by (simp_all add: time_marching_0 initial_state_counts)
  from time_marching_bounds [of env n w]
  show "optimizer_steps (final_world (time_marching env n w)) \<le>
          optimizer_steps w + n * nat (train_epoch env)"
    and "artifacts (final_world (time_marching env n w)) \<le> artifacts w + 2 * n"
    and "iterations_done (final_world (time_marching env n w)) \<le> iterations_done w + n"
    by simp_all
  show "driver env w = time_marching env 10 w"
    by (simp add: driver_def num_time_step_def)
qed

theorem time_marching_step_counts_witness:
  "\<exists>st. time_marching demo_env 2 demo_world = Inr st
      \<and> train_epoch demo_env = 2
      \<and> optimizer_steps (world st) = 4
      \<and> artifacts (world st) = 4
      \<and> iterations_done (world st) = 2"
proof -
  from demo_run obtain st where ok: "time_marching demo_env 2 demo_world = Inr st" by blast
  have z: "optimizer_steps demo_world = 0" "artifacts demo_world = 0"
    "iterations_done demo_world = 0"
    by (simp_all add: optimizer_steps_def artifacts_def iterations_done_def demo_world_def)
  from time_marching_step_counts [of demo_env 2 demo_world st] ok z
  have "int (optimizer_steps (world st)) = 4" "artifacts (world st) = 4"
    "iterations_done (world st) = 2"
    by (simp_all add: demo_env_fields)
  with ok show ?thesis by (auto simp: demo_env_fields)
qed





end
